theory Spec2Isabelle
  imports Main "HOL-Library.Word"
begin

section \<open>Errors and observable effects\<close>

text \<open>
  The Kubernetes API answers a failed request with a status error; the code only ever asks
  whether the status is "not found" (\<open>kerrors.IsNotFound\<close>).
\<close>

datatype StatusReason = NotFound | AlreadyExists | OtherReason string

definition IsNotFound :: "StatusReason \<Rightarrow> bool" where
  "IsNotFound r = (r = NotFound)"

text \<open>
  Go errors as values: \<open>errors.New\<close>, \<open>errors.Wrap\<close>/\<open>errors.Wrapf\<close> (the wrapped error,
  the format string and its arguments), a status error of the API server, the two
  errors of \<open>strconv\<close>, a syntax or type error of \<open>encoding/json\<close>, and an error of the
  operating system (file system, process execution, random source).
\<close>

datatype error =
    errors_New string
  | errors_Wrap error string "string list"
  | StatusError StatusReason
  | ErrSyntax string
  | ErrRange string
  | JSONError string
  | OSError string

text \<open>The levels of the package logger.\<close>

datatype level = Debugf | Infof | Warningf | Errorf

section \<open>Go library functions\<close>

subsection \<open>strings.Fields\<close>

text \<open>
  A Go string is a sequence of bytes holding UTF-8. \<open>strings.Fields\<close> splits around runs
  of white space as \<open>unicode.IsSpace\<close> defines it: the six ASCII characters, U+0085 and
  U+00A0 (two bytes each), and U+1680, U+2000..U+200A, U+2028, U+2029, U+202F, U+205F,
  U+3000 (three bytes each). No field is empty.
\<close>

definition asciiSpace :: "char \<Rightarrow> bool" where
  "asciiSpace c = (c \<in> set [CHR 0x09, CHR 0x0A, CHR 0x0B, CHR 0x0C, CHR 0x0D, CHR 0x20])"

definition unicodeSpace2 :: "string list" where
  "unicodeSpace2 = [[CHR 0xC2, CHR 0x85], [CHR 0xC2, CHR 0xA0]]"

definition unicodeSpace3 :: "string list" where
  "unicodeSpace3 =
     [[CHR 0xE1, CHR 0x9A, CHR 0x80],
      [CHR 0xE2, CHR 0x80, CHR 0x80], [CHR 0xE2, CHR 0x80, CHR 0x81],
      [CHR 0xE2, CHR 0x80, CHR 0x82], [CHR 0xE2, CHR 0x80, CHR 0x83],
      [CHR 0xE2, CHR 0x80, CHR 0x84], [CHR 0xE2, CHR 0x80, CHR 0x85],
      [CHR 0xE2, CHR 0x80, CHR 0x86], [CHR 0xE2, CHR 0x80, CHR 0x87],
      [CHR 0xE2, CHR 0x80, CHR 0x88], [CHR 0xE2, CHR 0x80, CHR 0x89],
      [CHR 0xE2, CHR 0x80, CHR 0x8A],
      [CHR 0xE2, CHR 0x80, CHR 0xA8], [CHR 0xE2, CHR 0x80, CHR 0xA9],
      [CHR 0xE2, CHR 0x80, CHR 0xAF], [CHR 0xE2, CHR 0x81, CHR 0x9F],
      [CHR 0xE3, CHR 0x80, CHR 0x80]]"

text \<open>The width in bytes of the white-space rune a string starts with; 0 when it starts
  with none.\<close>

definition spaceWidth :: "string \<Rightarrow> nat" where
  "spaceWidth s =
     (if s = [] then 0
      else if asciiSpace (hd s) then 1
      else if take 2 s \<in> set unicodeSpace2 then 2
      else if take 3 s \<in> set unicodeSpace3 then 3
      else 0)"

function fieldsFrom :: "string \<Rightarrow> string \<Rightarrow> string list" where
  "fieldsFrom cur [] = (if cur = [] then [] else [cur])"
| "fieldsFrom cur (c # cs) =
     (if spaceWidth (c # cs) = 0 then fieldsFrom (cur @ [c]) cs
      else (if cur = [] then [] else [cur]) @ fieldsFrom [] (drop (spaceWidth (c # cs) - 1) cs))"
  by pat_completeness auto
termination
  by (relation "measure (\<lambda>(cur, s). length s)") auto

definition Fields :: "string \<Rightarrow> string list" where
  "Fields s = fieldsFrom [] s"

subsection \<open>strconv.Atoi\<close>

text \<open>
  \<open>int\<close> is taken to be 64 bits wide. \<open>Atoi\<close> accepts an optional sign followed by at
  least one decimal digit. The digits are read from the left: a byte that is no digit
  ends the scan with a syntax error and the value 0; a value that no longer fits 64
  unsigned bits ends it with a range error. A range error gives the nearest bound of
  \<open>int\<close>.
\<close>

definition isDigit :: "char \<Rightarrow> bool" where
  "isDigit c = (48 \<le> (of_char c :: nat) \<and> (of_char c :: nat) \<le> 57)"

fun parseUint :: "nat \<Rightarrow> string \<Rightarrow> (nat \<times> bool) option" where
  "parseUint n [] = Some (n, False)"
| "parseUint n (c # cs) =
     (if \<not> isDigit c then None
      else if n * 10 + (of_char c - 48) \<ge> 2 ^ 64 then Some (2 ^ 64 - 1, True)
      else parseUint (n * 10 + (of_char c - 48)) cs)"

definition Atoi :: "string \<Rightarrow> int \<times> error option" where
  "Atoi s =
     (let neg = (take 1 s = ''-'');
          body = (if take 1 s = ''-'' \<or> take 1 s = ''+'' then drop 1 s else s)
      in if body = [] then (0, Some (ErrSyntax s))
         else case parseUint 0 body of
           None \<Rightarrow> (0, Some (ErrSyntax s))
         | Some (un, overflow) \<Rightarrow>
             if \<not> neg \<and> un \<ge> 2 ^ 63 then (2 ^ 63 - 1, Some (ErrRange s))
             else if neg \<and> un > 2 ^ 63 then (- (2 ^ 63), Some (ErrRange s))
             else (if neg then - int un else int un, None))"

subsection \<open>path.Join, path.Clean, strings.Replace\<close>

text \<open>\<open>strings.Split\<close> on a one-byte separator.\<close>

fun splitOn :: "char \<Rightarrow> string \<Rightarrow> string list" where
  "splitOn sep [] = [[]]"
| "splitOn sep (c # cs) =
     (if c = sep then [] # splitOn sep cs
      else case splitOn sep cs of
             x # xs \<Rightarrow> (c # x) # xs
           | [] \<Rightarrow> [[c]])"

text \<open>
  \<open>path.Clean\<close> walks the elements between slashes, keeping the elements of the result
  so far (the last one first): an empty element and \<open>.\<close> are dropped; \<open>..\<close> removes the
  element before it when there is one that is not itself \<open>..\<close>, is dropped at the root, and
  is kept otherwise. An empty result is \<open>.\<close>. On Linux \<open>filepath.Clean\<close> is the same
  function.
\<close>

fun cleanElems :: "bool \<Rightarrow> string list \<Rightarrow> string list \<Rightarrow> string list" where
  "cleanElems rooted out [] = rev out"
| "cleanElems rooted out (e # es) =
     (if e = [] \<or> e = ''.'' then cleanElems rooted out es
      else if e = ''..'' then
        (case out of
           [] \<Rightarrow> if rooted then cleanElems rooted [] es else cleanElems rooted [''..''] es
         | a # as \<Rightarrow> if a = ''..'' then cleanElems rooted (''..'' # out) es
                     else cleanElems rooted as es)
      else cleanElems rooted (e # out) es)"

fun joinWith :: "string \<Rightarrow> string list \<Rightarrow> string" where
  "joinWith sep [] = []"
| "joinWith sep [x] = x"
| "joinWith sep (x # y # ys) = x @ sep @ joinWith sep (y # ys)"

definition path_Clean :: "string \<Rightarrow> string" where
  "path_Clean p =
     (if p = [] then ''.''
      else let rooted = (hd p = CHR ''/'');
               out = joinWith ''/'' (cleanElems rooted [] (splitOn (CHR ''/'') p))
           in if rooted then CHR ''/'' # out
              else if out = [] then ''.'' else out)"

definition filepath_Clean :: "string \<Rightarrow> string" where
  "filepath_Clean p = path_Clean p"

definition path_Join :: "string list \<Rightarrow> string" where
  "path_Join elem =
     (if concat elem = [] then []
      else path_Clean (foldl (\<lambda>buf e. if buf \<noteq> [] then buf @ ''/'' @ e else e) [] elem))"

text \<open>\<open>strings.Replace(s, old, new, 1)\<close>: the first occurrence of \<open>old\<close> is replaced.\<close>

fun strings_Replace1 :: "string \<Rightarrow> string \<Rightarrow> string \<Rightarrow> string" where
  "strings_Replace1 [] old new = (if old = [] then new else [])"
| "strings_Replace1 (c # cs) old new =
     (if take (length old) (c # cs) = old then new @ drop (length old) (c # cs)
      else c # strings_Replace1 cs old new)"

subsection \<open>uuid.UUID.String, time.Duration\<close>

text \<open>A UUID is 16 bytes, here the bytes of a 128-bit word with byte 0 the most
  significant, written as 32 lower-case hexadecimal digits in groups of 8, 4, 4, 4 and
  12.\<close>

definition hexDigit :: "nat \<Rightarrow> char" where
  "hexDigit n = ''0123456789abcdef'' ! (n mod 16)"

definition uuidByte :: "128 word \<Rightarrow> nat \<Rightarrow> nat" where
  "uuidByte u i = unat (drop_bit (8 * (15 - i)) u) mod 256"

definition hexBytes :: "128 word \<Rightarrow> nat list \<Rightarrow> string" where
  "hexBytes u is = concat (map (\<lambda>i. [hexDigit (uuidByte u i div 16), hexDigit (uuidByte u i)]) is)"

definition uuid_String :: "128 word \<Rightarrow> string" where
  "uuid_String u =
     hexBytes u [0, 1, 2, 3] @ ''-'' @ hexBytes u [4, 5] @ ''-'' @ hexBytes u [6, 7] @ ''-'' @
     hexBytes u [8, 9] @ ''-'' @ hexBytes u [10, 11, 12, 13, 14, 15]"

text \<open>A \<open>time.Duration\<close> counts nanoseconds.\<close>

definition Second :: int where
  "Second = 1000000000"

section \<open>Data model\<close>

text \<open>
  The types of the packages \<open>cephconfig\<close> and \<open>mon\<close>, with the fields the code uses.
  \<open>NodeInfo\<close> is declared in another file. Several types have a field \<open>Name\<close>: it
  keeps its name in \<open>ClusterInfo\<close> and is \<open>MonName\<close> in \<open>MonInfo\<close>, \<open>OwnerName\<close> in an owner
  reference and \<open>ObjectName\<close> in the metadata of an object. A Go map that is ranged over
  (\<open>Monitors\<close>) is the list of its entries.
\<close>

typedecl NodeInfo

record MonInfo =
  MonName :: string
  Endpoint :: string

record ExternalCred =
  Username :: string
  Secret :: string

record ClusterInfo =
  FSID :: string
  MonitorSecret :: string
  AdminSecret :: string
  Name :: string
  Monitors :: "(string \<times> MonInfo) list"
  ExternalCred :: ExternalCred

record Mapping =
  Node :: "string \<rightharpoonup> NodeInfo"

text \<open>The Kubernetes objects: an owner reference, the metadata of an object, a secret
  (\<open>Data\<close> maps a key to bytes) and the data of a config map.\<close>

record OwnerReference =
  Kind :: string
  OwnerName :: string
  BlockOwnerDeletion :: "bool option"

record ObjectMeta =
  ObjectName :: string
  Namespace :: string
  OwnerReferences :: "OwnerReference list"

record Secret =
  ObjectMeta :: ObjectMeta
  Data :: "string \<rightharpoonup> string"
  Type :: string

record ConfigMap =
  ConfigMapData :: "string \<rightharpoonup> string"

text \<open>
  Every call that leaves the process is recorded, in order: requests to the API server,
  the random source, the file system, the external key tool, sleeping (nanoseconds), and
  log lines (level and format string).
\<close>

datatype event =
    SecretsGetCall string string
  | SecretsCreateCall string Secret
  | ConfigMapsGetCall string string
  | NewRandomCall
  | MkdirAllCall string nat
  | ExecuteCall string "string list"
  | ReadFileCall string
  | SleepCall int
  | LogCall level string

text \<open>
  The collaborators answer each call. The API client answers a \<open>Get\<close> with the object
  or a status, and a \<open>Create\<close> with a status when it fails. The executor runs a command
  and returns its output or an error. The host provides the random source and the file
  system. \<open>ReadFile\<close> answers for the file system as the preceding command left it.
\<close>

record Clientset =
  SecretsGet :: "string \<Rightarrow> string \<Rightarrow> StatusReason + Secret"
  SecretsCreate :: "string \<Rightarrow> Secret \<Rightarrow> StatusReason option"
  ConfigMapsGet :: "string \<Rightarrow> string \<Rightarrow> StatusReason + ConfigMap"

record Context =
  ConfigDir :: string
  Clientset :: Clientset
  Executor :: "string \<Rightarrow> string list \<Rightarrow> string + string"

record host =
  NewRandom :: "string + 128 word"
  MkdirAll :: "string \<Rightarrow> nat \<Rightarrow> string option"
  ReadFile :: "string \<Rightarrow> string + string"

section \<open>Parts of the repository declared in other files\<close>

text \<open>
  The constants and helper functions that \<open>config.go\<close> uses and other files of the
  repository declare are parameters of the model: the names of the persisted records and
  of their keys, \<open>k8sutil.SetOwnerRef\<close>, \<open>ParseMonEndpoints\<close>, \<open>fullNameToIndex\<close>,
  \<open>sys.Grep\<close>, and the JSON decoding of a \<open>Mapping\<close>.

  \<open>json.Unmarshal\<close> checks that its whole input is well-formed before it decodes
  anything; on malformed input it returns a syntax error and leaves the destination as
  it was. On well-formed input it decodes into the destination, and may still report a
  type error.
\<close>

datatype 'a json_input = Malformed string | WellFormed "'a \<Rightarrow> 'a \<times> string option"

record pkg =
  AppName :: string
  EndpointConfigMapName :: string
  EndpointDataKey :: string
  MaxMonIDKey :: string
  MappingKey :: string
  clusterSecretName :: string
  fsidSecretName :: string
  monSecretName :: string
  AdminSecretName :: string
  AdminUsername :: string
  OperatorCreds :: string
  CsiRBDNodeSecret :: string
  CsiRBDProvisionerSecret :: string
  CsiCephFSNodeSecret :: string
  CsiCephFSProvisionerSecret :: string
  RookType :: string
  SetOwnerRef :: "ObjectMeta \<Rightarrow> OwnerReference option \<Rightarrow> ObjectMeta"
  ParseMonEndpoints :: "string \<Rightarrow> (string \<times> MonInfo) list"
  fullNameToIndex :: "string \<Rightarrow> int \<times> error option"
  Grep :: "string \<Rightarrow> string \<Rightarrow> string"
  scanMapping :: "string \<Rightarrow> Mapping option json_input"

definition json_Unmarshal :: "(string \<Rightarrow> 'a json_input) \<Rightarrow> string \<Rightarrow> 'a \<Rightarrow> 'a \<times> error option" where
  "json_Unmarshal scan data v =
     (case scan data of
        Malformed msg \<Rightarrow> (v, Some (JSONError msg))
      | WellFormed decode \<Rightarrow> (case decode v of (v', e) \<Rightarrow> (v', map_option JSONError e)))"

section \<open>config.go\<close>

subsection \<open>ExtractKey\<close>

text \<open>The result is either the error (with the empty string) or the secret (with a nil
  error): a sum.\<close>

definition ExtractKey :: "pkg \<Rightarrow> string \<Rightarrow> error + string" where
  "ExtractKey K contents =
     (let slice = Fields (Grep K contents ''key'');
          secret = (if length slice \<ge> 3 then slice ! 2 else [])
      in if secret = [] then Inl (errors_New ''failed to parse secret'')
         else Inr secret)"

subsection \<open>Constants\<close>

definition keyringStoreName :: string where
  "keyringStoreName = ''rook-ceph-mons''"

definition externalConnectionRetry :: int where
  "externalConnectionRetry = 60 * Second"

text \<open>The Go literal \<open>"'allow *'"\<close> holds its single quotes.\<close>

definition quoted :: "string \<Rightarrow> string" where
  "quoted s = CHR 0x27 # s @ [CHR 0x27]"

subsection \<open>loadMonConfig\<close>

text \<open>
  The loop over the monitors raises \<open>maxMonID\<close> to the index of each monitor's name; the
  error of \<open>fullNameToIndex\<close> is discarded. A Go map is ranged over in no fixed order: the
  list is any order of its entries.
\<close>

fun maxMonIDLoop :: "pkg \<Rightarrow> int \<Rightarrow> (string \<times> MonInfo) list \<Rightarrow> int" where
  "maxMonIDLoop K maxMonID [] = maxMonID"
| "maxMonIDLoop K maxMonID ((k, m) # ms) =
     (let id' = fst (fullNameToIndex K (MonName m))
      in maxMonIDLoop K (if maxMonID < id' then id' else maxMonID) ms)"

text \<open>Reading a key that a Go map lacks gives the zero value, here the empty string.\<close>

definition lookupOrEmpty :: "(string \<rightharpoonup> string) \<Rightarrow> string \<Rightarrow> string" where
  "lookupOrEmpty m k = (case m k of Some v \<Rightarrow> v | None \<Rightarrow> [])"

definition emptyMapping :: "Mapping option" where
  "emptyMapping = Some \<lparr>Node = Map.empty\<rparr>"

text \<open>
  The four results are returned as Go returns them, also beside an error: the monitors,
  \<open>maxMonID\<close>, the mapping (a pointer, \<open>None\<close> for nil) and the error. A nil map reads as
  the empty one.
\<close>

definition loadMonConfig ::
  "pkg \<Rightarrow> Clientset \<Rightarrow> string \<Rightarrow>
     ((string \<times> MonInfo) list \<times> int \<times> Mapping option \<times> error option) \<times> event list" where
  "loadMonConfig K clientset namespace =
     (let monEndpointMap = [];
          maxMonID = - 1;
          monMapping = emptyMapping;
          get = [ConfigMapsGetCall namespace (EndpointConfigMapName K)]
      in case ConfigMapsGet clientset namespace (EndpointConfigMapName K) of
           Inl err \<Rightarrow>
             if \<not> IsNotFound err then (([], maxMonID, monMapping, Some (StatusError err)), get)
             else ((monEndpointMap, maxMonID, monMapping, None), get)
         | Inr cm \<Rightarrow>
             let monEndpointMap =
                   (case ConfigMapData cm (EndpointDataKey K) of
                      Some info \<Rightarrow> ParseMonEndpoints K info
                    | None \<Rightarrow> monEndpointMap);
                 (maxMonID, log1) =
                   (case ConfigMapData cm (MaxMonIDKey K) of
                      Some id' \<Rightarrow>
                        (case Atoi id' of
                           (n, Some err) \<Rightarrow> (n, [LogCall Errorf ''invalid max mon id %q. %v''])
                         | (n, None) \<Rightarrow> (n, []))
                    | None \<Rightarrow> (maxMonID, []));
                 maxMonID = maxMonIDLoop K maxMonID monEndpointMap;
                 (monMapping, err) =
                   json_Unmarshal (scanMapping K) (lookupOrEmpty (ConfigMapData cm) (MappingKey K))
                     monMapping;
                 log2 = (if err \<noteq> None then [LogCall Errorf ''invalid JSON in mon mapping. %v'']
                         else [])
             in ((monEndpointMap, maxMonID, monMapping, None),
                 get @ log1 @ log2 @ [LogCall Debugf ''loaded: maxMonID=%d, mons=%+v, mapping=%+v'']))"

text \<open>
  What a membership record holds, named for the properties below: the monitors of its
  directory string, the counter as \<open>Atoi\<close> reads it (\<open>- 1\<close>, the initial value, when the
  record has no counter), the indices of the monitors' names, and the decoding of its
  mapping.
\<close>

definition readMons :: "pkg \<Rightarrow> ConfigMap \<Rightarrow> (string \<times> MonInfo) list" where
  "readMons K cm =
     (case ConfigMapData cm (EndpointDataKey K) of
        Some info \<Rightarrow> ParseMonEndpoints K info
      | None \<Rightarrow> [])"

definition readCounter :: "pkg \<Rightarrow> ConfigMap \<Rightarrow> int" where
  "readCounter K cm =
     (case ConfigMapData cm (MaxMonIDKey K) of
        Some s \<Rightarrow> fst (Atoi s)
      | None \<Rightarrow> - 1)"

definition monIDs :: "pkg \<Rightarrow> (string \<times> MonInfo) list \<Rightarrow> int set" where
  "monIDs K mons = (\<lambda>entry. fst (fullNameToIndex K (MonName (snd entry)))) ` set mons"

definition readMapping :: "pkg \<Rightarrow> ConfigMap \<Rightarrow> Mapping option \<times> error option" where
  "readMapping K cm =
     json_Unmarshal (scanMapping K) (lookupOrEmpty (ConfigMapData cm) (MappingKey K)) emptyMapping"

subsection \<open>createClusterAccessSecret, genSecret, createNamedClusterInfo\<close>

definition createClusterAccessSecret ::
  "pkg \<Rightarrow> Clientset \<Rightarrow> string \<Rightarrow> ClusterInfo \<Rightarrow> OwnerReference option \<Rightarrow>
     error option \<times> event list" where
  "createClusterAccessSecret K clientset namespace clusterInfo ownerRef =
     (let secrets = [clusterSecretName K \<mapsto> Name clusterInfo,
                     fsidSecretName K \<mapsto> FSID clusterInfo,
                     monSecretName K \<mapsto> MonitorSecret clusterInfo,
                     AdminSecretName K \<mapsto> AdminSecret clusterInfo];
          secret = \<lparr>ObjectMeta =
                      SetOwnerRef K
                        \<lparr>ObjectName = AppName K, Namespace = namespace, OwnerReferences = []\<rparr>
                        ownerRef,
                    Data = secrets,
                    Type = RookType K\<rparr>;
          calls = [LogCall Infof ''creating mon secrets for a new cluster'',
                   SecretsCreateCall namespace secret]
      in case SecretsCreate clientset namespace secret of
           Some err \<Rightarrow> (Some (errors_Wrap (StatusError err) ''failed to save mon secrets'' []), calls)
         | None \<Rightarrow> (None, calls))"

text \<open>
  \<open>genSecret\<close> and \<open>createNamedClusterInfo\<close> return either an error (with the zero value)
  or a value (with a nil error): a sum.
\<close>

definition genSecret ::
  "pkg \<Rightarrow> host \<Rightarrow> (string \<Rightarrow> string list \<Rightarrow> string + string) \<Rightarrow> string \<Rightarrow> string \<Rightarrow>
     string list \<Rightarrow> (error + string) \<times> event list" where
  "genSecret K H executor configDir name args =
     (let path = path_Join [configDir, name @ ''.keyring''];
          path = strings_Replace1 path ''..'' ''.'';
          base = [''--create-keyring'', path, ''--gen-key'', ''-n'', name];
          args = base @ args;
          run = [ExecuteCall ''ceph-authtool'' args]
      in case executor ''ceph-authtool'' args of
           Inl err \<Rightarrow> (Inl (errors_Wrap (OSError err) ''failed to gen secret'' []), run)
         | Inr output \<Rightarrow>
             (case ReadFile H (filepath_Clean path) of
                Inl err \<Rightarrow>
                  (Inl (errors_Wrap (OSError err) ''failed to read secret file'' []),
                   run @ [ReadFileCall (filepath_Clean path)])
              | Inr contents \<Rightarrow>
                  (ExtractKey K contents, run @ [ReadFileCall (filepath_Clean path)])))"

text \<open>The directory is created with mode 0744, which is 484.\<close>

definition createNamedClusterInfo ::
  "pkg \<Rightarrow> host \<Rightarrow> Context \<Rightarrow> string \<Rightarrow> (error + ClusterInfo) \<times> event list" where
  "createNamedClusterInfo K H context clusterName =
     (case NewRandom H of
        Inl err \<Rightarrow> (Inl (OSError err), [NewRandomCall])
      | Inr fsid \<Rightarrow>
          (let dir = path_Join [ConfigDir context, clusterName];
               made = [NewRandomCall, MkdirAllCall dir 484]
           in (case MkdirAll H dir 484 of
                 Some err \<Rightarrow>
                   (Inl (errors_Wrap (OSError err) ''failed to create dir %s'' [dir]), made)
               | None \<Rightarrow>
                   (case genSecret K H (Executor context) dir ''mon.''
                           [''--cap'', ''mon'', quoted ''allow *''] of
                      (Inl err, ev1) \<Rightarrow> (Inl err, made @ ev1)
                    | (Inr monSecret, ev1) \<Rightarrow>
                        (let args = [''--cap'', ''mon'', quoted ''allow *'',
                                     ''--cap'', ''osd'', quoted ''allow *'',
                                     ''--cap'', ''mgr'', quoted ''allow *'',
                                     ''--cap'', ''mds'', quoted ''allow'']
                         in (case genSecret K H (Executor context) dir (AdminUsername K) args of
                               (Inl err, ev2) \<Rightarrow> (Inl err, made @ ev1 @ ev2)
                             | (Inr adminSecret, ev2) \<Rightarrow>
                                 (Inr \<lparr>FSID = uuid_String fsid,
                                       MonitorSecret = monSecret,
                                       AdminSecret = adminSecret,
                                       Name = clusterName,
                                       Monitors = [],
                                       ExternalCred = \<lparr>Username = [], Secret = []\<rparr>\<rparr>,
                                  made @ ev1 @ ev2)))))))"

subsection \<open>CreateOrLoadClusterInfo, LoadClusterInfo\<close>

text \<open>
  The four results are returned as Go returns them, also beside an error: the cluster
  info (a pointer, \<open>None\<close> for nil), \<open>maxMonID\<close>, the mapping and the error. The first
  part finds or creates the identity; the monitor configuration is loaded only when it
  succeeded.
\<close>

definition findOrCreate ::
  "pkg \<Rightarrow> host \<Rightarrow> Context \<Rightarrow> string \<Rightarrow> OwnerReference option \<Rightarrow>
     (error + ClusterInfo) \<times> event list" where
  "findOrCreate K H context namespace ownerRef =
     (let get = [SecretsGetCall namespace (AppName K)]
      in case SecretsGet (Clientset context) namespace (AppName K) of
           Inl err \<Rightarrow>
             if \<not> IsNotFound err then
               (Inl (errors_Wrap (StatusError err) ''failed to get mon secrets'' []), get)
             else if ownerRef = None then
               (Inl (errors_New
                  ''not expected to create new cluster info and did not find existing secret''),
                get)
             else
               (case createNamedClusterInfo K H context namespace of
                  (Inl err, ev1) \<Rightarrow>
                    (Inl (errors_Wrap err ''failed to create mon secrets'' []), get @ ev1)
                | (Inr clusterInfo, ev1) \<Rightarrow>
                    (case createClusterAccessSecret K (Clientset context) namespace
                            clusterInfo ownerRef of
                       (Some err, ev2) \<Rightarrow> (Inl err, get @ ev1 @ ev2)
                     | (None, ev2) \<Rightarrow> (Inr clusterInfo, get @ ev1 @ ev2)))
         | Inr secrets \<Rightarrow>
             (Inr \<lparr>FSID = lookupOrEmpty (Data secrets) (fsidSecretName K),
                   MonitorSecret = lookupOrEmpty (Data secrets) (monSecretName K),
                   AdminSecret = lookupOrEmpty (Data secrets) (AdminSecretName K),
                   Name = lookupOrEmpty (Data secrets) (clusterSecretName K),
                   Monitors = [],
                   ExternalCred = \<lparr>Username = [], Secret = []\<rparr>\<rparr>,
              get @ [LogCall Debugf ''found existing monitor secrets for cluster %s'']))"

definition CreateOrLoadClusterInfo ::
  "pkg \<Rightarrow> host \<Rightarrow> Context \<Rightarrow> string \<Rightarrow> OwnerReference option \<Rightarrow>
     (ClusterInfo option \<times> int \<times> Mapping option \<times> error option) \<times> event list" where
  "CreateOrLoadClusterInfo K H context namespace ownerRef =
     (let maxMonID = - 1;
          monMapping = emptyMapping
      in case findOrCreate K H context namespace ownerRef of
           (Inl err, ev) \<Rightarrow> ((None, maxMonID, monMapping, Some err), ev)
         | (Inr clusterInfo, ev) \<Rightarrow>
             (case loadMonConfig K (Clientset context) namespace of
                ((mons, maxMonID, monMapping, Some err), ev3) \<Rightarrow>
                  ((None, maxMonID, monMapping,
                    Some (errors_Wrap err ''failed to get mon config'' [])),
                   ev @ ev3)
              | ((mons, maxMonID, monMapping, None), ev3) \<Rightarrow>
                  ((Some (clusterInfo\<lparr>Monitors := mons\<rparr>), maxMonID, monMapping, None),
                   ev @ ev3)))"

definition LoadClusterInfo ::
  "pkg \<Rightarrow> host \<Rightarrow> Context \<Rightarrow> string \<Rightarrow>
     (ClusterInfo option \<times> int \<times> Mapping option \<times> error option) \<times> event list" where
  "LoadClusterInfo K H context namespace = CreateOrLoadClusterInfo K H context namespace None"

subsection \<open>ValidateAndLoadExternalClusterSecrets\<close>

text \<open>
  The typed API client returns a pointer to an empty object beside an error, so
  \<open>secret.Data\<close> is then the nil map and every key reads as the empty string.
\<close>

definition secretData :: "StatusReason + Secret \<Rightarrow> (string \<rightharpoonup> string)" where
  "secretData r = (case r of Inl err \<Rightarrow> Map.empty | Inr secret \<Rightarrow> Data secret)"

text \<open>
  The four lookups of the service secrets are the same block of code, one after the
  other: a status other than "not found" is returned, wrapped; a found secret and a
  missing one both go on to the next lookup.
\<close>

fun lookupSecrets :: "Clientset \<Rightarrow> string \<Rightarrow> string list \<Rightarrow> error option \<times> event list" where
  "lookupSecrets clientset namespace [] = (None, [])"
| "lookupSecrets clientset namespace (name # names) =
     (case SecretsGet clientset namespace name of
        Inl err \<Rightarrow>
          if \<not> IsNotFound err then
            (Some (errors_Wrap (StatusError err) ''failed to get %q secret'' [name]),
             [SecretsGetCall namespace name])
          else (case lookupSecrets clientset namespace names of
                  (e, ev) \<Rightarrow> (e, SecretsGetCall namespace name # ev))
      | Inr secret \<Rightarrow>
          (case lookupSecrets clientset namespace names of
             (e, ev) \<Rightarrow> (e, SecretsGetCall namespace name # ev)))"

definition ValidateAndLoadExternalClusterSecrets ::
  "pkg \<Rightarrow> Context \<Rightarrow> string \<Rightarrow> (ExternalCred \<times> error option) \<times> event list" where
  "ValidateAndLoadExternalClusterSecrets K context namespace =
     (let get = SecretsGetCall namespace (OperatorCreds K);
          secret = SecretsGet (Clientset context) namespace (OperatorCreds K);
          loaded =
            (let externalCred = \<lparr>Username = lookupOrEmpty (secretData secret) ''userID'',
                                 Secret = lookupOrEmpty (secretData secret) ''userKey''\<rparr>
             in (case lookupSecrets (Clientset context) namespace
                        [CsiRBDNodeSecret K, CsiRBDProvisionerSecret K,
                         CsiCephFSNodeSecret K, CsiCephFSProvisionerSecret K] of
                   (e, ev) \<Rightarrow> ((externalCred, e), get # ev)))
      in case secret of
           Inl err \<Rightarrow>
             if \<not> IsNotFound err then
               ((\<lparr>Username = [], Secret = []\<rparr>,
                 Some (errors_Wrap (StatusError err) ''failed to get external user secret'' [])),
                [get])
             else loaded
         | Inr found \<Rightarrow> loaded)"

text \<open>The five secrets that \<open>ValidateAndLoadExternalClusterSecrets\<close> looks up.\<close>

definition externalSecretNames :: "pkg \<Rightarrow> string list" where
  "externalSecretNames K =
     [OperatorCreds K, CsiRBDNodeSecret K, CsiRBDProvisionerSecret K,
      CsiCephFSNodeSecret K, CsiCephFSProvisionerSecret K]"

subsection \<open>IsExternalHealthCheckUserAdmin, PopulateExternalClusterInfo\<close>

definition IsExternalHealthCheckUserAdmin :: "pkg \<Rightarrow> string \<Rightarrow> bool" where
  "IsExternalHealthCheckUserAdmin K adminSecret = (adminSecret \<noteq> AdminSecretName K)"

text \<open>
  The loop has no exit but its two \<open>break\<close>s. Each round sees the API server as it is at
  that time: the list holds the successive states, one for each round, and a run that has
  not left the loop when the list ends is \<open>NotYet\<close>. Using a nil cluster info would
  panic.

  \<open>populateRound\<close> is the body of the loop: \<open>Some\<close> result when the round leaves the loop,
  \<open>None\<close> when it sleeps and goes round again.
\<close>

datatype 'a run = Returns 'a | Panics | NotYet

definition waiting :: "event list" where
  "waiting =
     [LogCall Warningf ''waiting for the connection info of the external cluster. retrying in %s.'']"

definition populateRound ::
  "pkg \<Rightarrow> host \<Rightarrow> Context \<Rightarrow> string \<Rightarrow> ClusterInfo run option \<times> event list" where
  "populateRound K H context namespace =
     (case LoadClusterInfo K H context namespace of
        ((clusterInfo, maxMonID, monMapping, Some err), ev) \<Rightarrow>
          (None, ev @ waiting @ [SleepCall externalConnectionRetry])
      | ((None, maxMonID, monMapping, None), ev) \<Rightarrow> (Some Panics, ev)
      | ((Some clusterInfo, maxMonID, monMapping, None), ev) \<Rightarrow>
          if IsExternalHealthCheckUserAdmin K (AdminSecret clusterInfo) then
            (Some (Returns (clusterInfo\<lparr>ExternalCred :=
                        \<lparr>Username = AdminUsername K, Secret = AdminSecret clusterInfo\<rparr>\<rparr>)),
             ev)
          else
            (case ValidateAndLoadExternalClusterSecrets K context namespace of
               ((externalCred, Some err), ev2) \<Rightarrow>
                 (None,
                  ev @ ev2 @ waiting @ [LogCall Debugf ''%v'', SleepCall externalConnectionRetry])
             | ((externalCred, None), ev2) \<Rightarrow>
                 (Some (Returns (clusterInfo\<lparr>ExternalCred := externalCred\<rparr>)),
                  ev @ ev2 @
                  [LogCall Infof ''found the cluster info to connect to the external cluster. will use %q to check health and monitor status. mons=%+v''])))"

fun PopulateExternalClusterInfo ::
  "pkg \<Rightarrow> host \<Rightarrow> Context list \<Rightarrow> string \<Rightarrow> ClusterInfo run \<times> event list" where
  "PopulateExternalClusterInfo K H [] namespace = (NotYet, [])"
| "PopulateExternalClusterInfo K H (context # later) namespace =
     (case populateRound K H context namespace of
        (Some r, ev) \<Rightarrow> (r, ev)
      | (None, ev) \<Rightarrow>
          (case PopulateExternalClusterInfo K H later namespace of
             (r, ev') \<Rightarrow> (r, ev @ ev')))"

text \<open>The calls of a run, by kind: the durations slept, the commands executed, the
  secrets created, and the number of random IDs drawn.\<close>

fun sleeps :: "event list \<Rightarrow> int list" where
  "sleeps [] = []"
| "sleeps (SleepCall d # es) = d # sleeps es"
| "sleeps (e # es) = sleeps es"

fun executions :: "event list \<Rightarrow> (string \<times> string list) list" where
  "executions [] = []"
| "executions (ExecuteCall command args # es) = (command, args) # executions es"
| "executions (e # es) = executions es"

fun creations :: "event list \<Rightarrow> (string \<times> Secret) list" where
  "creations [] = []"
| "creations (SecretsCreateCall namespace secret # es) = (namespace, secret) # creations es"
| "creations (e # es) = creations es"

fun randoms :: "event list \<Rightarrow> nat" where
  "randoms [] = 0"
| "randoms (NewRandomCall # es) = Suc (randoms es)"
| "randoms (e # es) = randoms es"

text \<open>The path of the keyring that \<open>genSecret\<close> has the key tool write for a name.\<close>

definition keyringPath :: "string \<Rightarrow> string \<Rightarrow> string" where
  "keyringPath configDir name =
     strings_Replace1 (path_Join [configDir, name @ ''.keyring'']) ''..'' ''.''"

section \<open>operator.go\<close>

text \<open>
  The server version holds its major and minor number as strings, and \<open>csi.KubeMinMajor\<close>
  and \<open>csi.KubeMinMinor\<close> are string constants; Go orders strings byte by byte.
\<close>

record VersionInfo =
  Major :: string
  Minor :: string
  GitVersion :: string

fun string_less :: "string \<Rightarrow> string \<Rightarrow> bool" where
  "string_less [] [] = False"
| "string_less [] (y # ys) = True"
| "string_less (x # xs) [] = False"
| "string_less (x # xs) (y # ys) =
     ((of_char x :: nat) < of_char y \<or> (x = y \<and> string_less xs ys))"

text \<open>
  The state \<open>updateDrivers\<close> works on: the operator, the package variable
  \<open>EnableFlexDriver\<close>, and the two switches of the package \<open>csi\<close>. The package \<open>csi\<close>
  and the other collaborators are declared in other files; they are parameters, each
  with the result it gives.
\<close>

record Operator =
  operatorNamespace :: string
  delayedDaemonsStarted :: bool

record csi =
  EnableRBD :: bool
  EnableCephFS :: bool

record drivers =
  EnableFlexDriver :: bool
  KubeMinMajor :: string
  KubeMinMinor :: string
  agentStart :: "error option"
  ServerVersion :: "error + VersionInfo"
  SetParams :: "csi \<Rightarrow> error option \<times> csi"
  CSIEnabled :: "csi \<Rightarrow> bool"
  getDeploymentOwnerReference :: "error + OwnerReference"
  CreateCsiConfigMap :: "OwnerReference option \<Rightarrow> error option"
  ValidateCSIParam :: "error option"

datatype started = AgentStarted | DriversStarted VersionInfo "OwnerReference option"

definition versionTooOld :: "drivers \<Rightarrow> VersionInfo \<Rightarrow> bool" where
  "versionTooOld D serverVersion =
     (string_less (Major serverVersion) (KubeMinMajor D) \<or>
      Major serverVersion = KubeMinMajor D \<and> string_less (Minor serverVersion) (KubeMinMinor D))"

text \<open>The result: the error, the switches of \<open>csi\<close> afterwards, and what was started.\<close>

definition updateDrivers :: "drivers \<Rightarrow> Operator \<Rightarrow> csi \<Rightarrow> error option \<times> csi \<times> started list" where
  "updateDrivers D op c =
     (if \<not> delayedDaemonsStarted op then (None, c, [])
      else if operatorNamespace op = [] then
        (Some (errors_New ''rook operator namespace is not provided. expose it via downward API in the rook operator manifest file using environment variable %s''),
         c, [])
      else case (if EnableFlexDriver D then agentStart D else None) of
        Some err \<Rightarrow> (Some (errors_Wrap err ''error starting agent daemonset'' []), c, [])
      | None \<Rightarrow>
        let agent = (if EnableFlexDriver D then [AgentStarted] else [])
        in (case ServerVersion D of
              Inl err \<Rightarrow> (Some (errors_Wrap err ''error getting server version'' []), c, agent)
            | Inr serverVersion \<Rightarrow>
                (case SetParams D c of
                   (Some err, c1) \<Rightarrow>
                     (Some (errors_Wrap err ''failed to configure CSI parameters'' []), c1, agent)
                 | (None, c1) \<Rightarrow>
                     if \<not> CSIEnabled D c1 then (None, c1, agent)
                     else if versionTooOld D serverVersion then
                       (None, c1\<lparr>EnableRBD := False, EnableCephFS := False\<rparr>, agent)
                     else
                       (let ownerRef = (case getDeploymentOwnerReference D of
                                          Inl err \<Rightarrow> None
                                        | Inr r \<Rightarrow> Some (r\<lparr>BlockOwnerDeletion := Some False\<rparr>))
                        in (case CreateCsiConfigMap D ownerRef of
                              Some err \<Rightarrow>
                                (Some (errors_Wrap err ''failed creating csi config map'' []),
                                 c1, agent)
                            | None \<Rightarrow>
                                (case ValidateCSIParam D of
                                   Some err \<Rightarrow>
                                     (Some (errors_Wrap err ''invalid csi params'' []), c1, agent)
                                 | None \<Rightarrow>
                                     (None, c1,
                                      agent @ [DriversStarted serverVersion ownerRef])))))))"

section \<open>The configuration synthesizer\<close>

text \<open>
  The file of the package \<open>config\<close> that renders the configuration
  (\<open>GenerateConfigFile\<close>) is not among the sources; only its test is. The definitions of
  this section follow the specification of the synthesizer.
\<close>

text \<open>Modelled from the spec: the configuration document (\<open>GenerateConfigFile\<close>'s
  source is missing), an ordered set of sections, each a mapping from key to string
  value.\<close>

type_synonym ConfigDocument = "(string \<times> (string \<rightharpoonup> string)) list"

text \<open>Modelled from the spec: the value of a key of a section of a document, as reading
  the rendered file back gives it.\<close>

definition valueOf :: "ConfigDocument \<Rightarrow> string \<Rightarrow> string \<Rightarrow> string option" where
  "valueOf document section key =
     (case map_of document section of None \<Rightarrow> None | Some keys \<Rightarrow> keys key)"

text \<open>Modelled from the spec: merging one override section onto a document (the merge
  of \<open>GenerateConfigFile\<close> is missing). An override key replaces the default value of
  that key, keys only in the defaults are kept, and a section only in the override is
  added.\<close>

fun mergeSection :: "string \<Rightarrow> (string \<rightharpoonup> string) \<Rightarrow> ConfigDocument \<Rightarrow> ConfigDocument" where
  "mergeSection section keys [] = [(section, keys)]"
| "mergeSection section keys ((name, defaults) # rest) =
     (if name = section then (name, defaults ++ keys) # rest
      else (name, defaults) # mergeSection section keys rest)"

text \<open>Modelled from the spec: the deep merge of an override document onto a document,
  section by section.\<close>

fun Merge :: "ConfigDocument \<Rightarrow> ConfigDocument \<Rightarrow> ConfigDocument" where
  "Merge document [] = document"
| "Merge document ((section, keys) # rest) = Merge (mergeSection section keys document) rest"

text \<open>Modelled from the spec: blanks around section names, keys and values of the
  INI-like grammar do not count (the parser of the override text is missing).\<close>

definition isBlank :: "char \<Rightarrow> bool" where
  "isBlank c = (c = CHR '' '' \<or> c = CHR 0x09 \<or> c = CHR 0x0D)"

text \<open>Modelled from the spec: a name, key or value without the blanks around it (the
  parser of the override text is missing).\<close>

definition trim :: "string \<Rightarrow> string" where
  "trim s = rev (dropWhile isBlank (rev (dropWhile isBlank s)))"

text \<open>Modelled from the spec: the INI-like grammar of a document, read line by line (the
  parser of the override text is missing). A line \<open>[name]\<close> opens a section, a line
  \<open>key = value\<close> adds a key to the open section, any other line is skipped.\<close>

fun parseLines :: "string \<Rightarrow> string list \<Rightarrow> ConfigDocument \<Rightarrow> ConfigDocument" where
  "parseLines section [] document = document"
| "parseLines section (line # lines) document =
     (if trim line = [] then parseLines section lines document
      else if hd (trim line) = CHR ''['' \<and> last (trim line) = CHR '']'' then
        parseLines (butlast (tl (trim line))) lines
          (mergeSection (butlast (tl (trim line))) Map.empty document)
      else if CHR ''='' \<in> set (trim line) then
        parseLines section lines
          (mergeSection section
             [trim (takeWhile (\<lambda>c. c \<noteq> CHR ''='') (trim line)) \<mapsto>
              trim (drop 1 (dropWhile (\<lambda>c. c \<noteq> CHR ''='') (trim line)))]
             document)
      else parseLines section lines document)"

text \<open>Modelled from the spec: the document that a text in the INI-like grammar denotes
  (the parser of the override text is missing).\<close>

definition parseDocument :: "string \<Rightarrow> ConfigDocument" where
  "parseDocument text = parseLines [] (splitOn (CHR 0x0A) text) []"

text \<open>Modelled from the spec: \<open>Render\<close> (\<open>GenerateConfigFile\<close>, whose source is missing)
  merges the override text, when there is one, onto the document and writes the result
  to \<open>destinationDir/clusterName.config\<close>. The result is the path and the document
  written there.\<close>

definition Render :: "string \<Rightarrow> ConfigDocument \<Rightarrow> string option \<Rightarrow> string \<Rightarrow> string \<times> ConfigDocument" where
  "Render clusterName document overrideDocument destinationDir =
     (destinationDir @ ''/'' @ clusterName @ ''.config'',
      case overrideDocument of
        None \<Rightarrow> document
      | Some text \<Rightarrow> Merge document (parseDocument text))"

section \<open>Sample values\<close>

text \<open>
  Values for the parameters, used where a property is run on a concrete input: names
  for the records and keys, and simple stand-ins for the helper functions (entries
  \<open>name=endpoint\<close> separated by commas; the index of a one-letter name; the first line
  that contains the search text; a JSON scanner that accepts only the empty object).
\<close>

definition parse0 :: "string \<Rightarrow> (string \<times> MonInfo) list" where
  "parse0 info =
     map (\<lambda>entry. (takeWhile (\<lambda>c. c \<noteq> CHR ''='') entry,
                    \<lparr>MonName = takeWhile (\<lambda>c. c \<noteq> CHR ''='') entry,
                     Endpoint = drop 1 (dropWhile (\<lambda>c. c \<noteq> CHR ''='') entry)\<rparr>))
         (filter (\<lambda>entry. entry \<noteq> []) (splitOn (CHR '','') info))"

definition index0 :: "string \<Rightarrow> int \<times> error option" where
  "index0 name =
     (case name of
        [c] \<Rightarrow> if 97 \<le> (of_char c :: nat) \<and> (of_char c :: nat) \<le> 122
                then (int (of_char c) - 97, None)
                else (- 1, Some (errors_New ''invalid name''))
      | _ \<Rightarrow> (- 1, Some (errors_New ''invalid name'')))"

fun contains :: "string \<Rightarrow> string \<Rightarrow> bool" where
  "contains [] sub = (sub = [])"
| "contains (c # cs) sub = (take (length sub) (c # cs) = sub \<or> contains cs sub)"

definition grep0 :: "string \<Rightarrow> string \<Rightarrow> string" where
  "grep0 input searchFor =
     (if input = [] \<or> searchFor = [] then []
      else case filter (\<lambda>line. contains line searchFor) (splitOn (CHR 0x0A) input) of
             [] \<Rightarrow> []
           | line # lines \<Rightarrow> line)"

definition scan0 :: "string \<Rightarrow> Mapping option json_input" where
  "scan0 text = (if text = ''{}'' then WellFormed (\<lambda>v. (v, None))
                 else Malformed ''invalid character'')"

definition setOwnerRef0 :: "ObjectMeta \<Rightarrow> OwnerReference option \<Rightarrow> ObjectMeta" where
  "setOwnerRef0 object ownerRef =
     (case ownerRef of None \<Rightarrow> object | Some r \<Rightarrow> object\<lparr>OwnerReferences := [r]\<rparr>)"

definition pkg0 :: pkg where
  "pkg0 =
     \<lparr>AppName = ''rook-ceph-mon'',
      EndpointConfigMapName = ''rook-ceph-mon-endpoints'',
      EndpointDataKey = ''data'',
      MaxMonIDKey = ''maxMonId'',
      MappingKey = ''mapping'',
      clusterSecretName = ''cluster-name'',
      fsidSecretName = ''fsid'',
      monSecretName = ''mon-secret'',
      AdminSecretName = ''admin-secret'',
      AdminUsername = ''client.admin'',
      OperatorCreds = ''rook-ceph-operator-creds'',
      CsiRBDNodeSecret = ''rook-csi-rbd-node'',
      CsiRBDProvisionerSecret = ''rook-csi-rbd-provisioner'',
      CsiCephFSNodeSecret = ''rook-csi-cephfs-node'',
      CsiCephFSProvisionerSecret = ''rook-csi-cephfs-provisioner'',
      RookType = ''kubernetes.io/rook'',
      SetOwnerRef = setOwnerRef0,
      ParseMonEndpoints = parse0,
      fullNameToIndex = index0,
      Grep = grep0,
      scanMapping = scan0\<rparr>"

text \<open>Keyrings as the key tool writes them, for \<open>mon.\<close> and for the admin user.\<close>

definition keyring0 :: string where
  "keyring0 = ''[mon.]'' @ [CHR 0x0A, CHR 0x09] @ ''key = AQBsecret=='' @ [CHR 0x0A, CHR 0x09] @
              ''caps mon = '' @ [CHR 0x22] @ ''allow *'' @ [CHR 0x22, CHR 0x0A]"

definition adminKeyring0 :: string where
  "adminKeyring0 = ''[client.admin]'' @ [CHR 0x0A, CHR 0x09] @ ''key = AQBadmin=='' @ [CHR 0x0A]"

text \<open>An API server that holds nothing, and one that holds a membership record.\<close>

definition emptyClientset :: Clientset where
  "emptyClientset =
     \<lparr>SecretsGet = (\<lambda>namespace name. Inl NotFound),
      SecretsCreate = (\<lambda>namespace secret. None),
      ConfigMapsGet = (\<lambda>namespace name. Inl NotFound)\<rparr>"

definition withConfigMap :: "(string \<rightharpoonup> string) \<Rightarrow> Clientset" where
  "withConfigMap d =
     emptyClientset\<lparr>ConfigMapsGet :=
       (\<lambda>namespace name. if name = ''rook-ceph-mon-endpoints''
                           then Inr \<lparr>ConfigMapData = d\<rparr> else Inl NotFound)\<rparr>"

text \<open>A host whose file system holds a different keyring for the admin user than for
  \<open>mon.\<close>.\<close>

definition host0 :: host where
  "host0 =
     \<lparr>NewRandom = Inr 0x6ba7b8109dad41d180b400c04fd430c8,
      MkdirAll = (\<lambda>dir mode. None),
      ReadFile = (\<lambda>path. if path = ''/var/lib/rook/rook-ceph/client.admin.keyring''
                         then Inr adminKeyring0 else Inr keyring0)\<rparr>"

definition context0 :: Context where
  "context0 =
     \<lparr>ConfigDir = ''/var/lib/rook'',
      Clientset = emptyClientset,
      Executor = (\<lambda>command args. Inr [])\<rparr>"

definition ownerRef0 :: OwnerReference where
  "ownerRef0 = \<lparr>Kind = ''CephCluster'', OwnerName = ''rook-ceph'', BlockOwnerDeletion = Some True\<rparr>"

text \<open>Membership records: two monitors \<open>a\<close> and \<open>c\<close> with the counter at 1, and the same
  with a mapping that is not JSON.\<close>

definition members0 :: "string \<rightharpoonup> string" where
  "members0 = [''data'' \<mapsto> ''a=10.0.0.1:6789,c=10.0.0.3:6789'', ''maxMonId'' \<mapsto> ''1'',
               ''mapping'' \<mapsto> ''{}'']"

definition members1 :: "string \<rightharpoonup> string" where
  "members1 = [''data'' \<mapsto> ''a=10.0.0.1:6789,c=10.0.0.3:6789'', ''maxMonId'' \<mapsto> ''1'',
               ''mapping'' \<mapsto> ''{node:'']"

text \<open>
  An API server of an external cluster: it holds the identity secret with the given
  admin secret, and nothing else. \<open>externalInfo\<close> is the cluster info loaded from it.
\<close>

definition externalSecret :: "string \<Rightarrow> Secret" where
  "externalSecret admin =
     \<lparr>ObjectMeta = \<lparr>ObjectName = ''rook-ceph-mon'', Namespace = ''rook-ceph'', OwnerReferences = []\<rparr>,
      Data = [''cluster-name'' \<mapsto> ''rook-ceph'',
              ''fsid'' \<mapsto> ''6ba7b810-9dad-41d1-80b4-00c04fd430c8'',
              ''mon-secret'' \<mapsto> ''mon-secret'',
              ''admin-secret'' \<mapsto> admin],
      Type = ''kubernetes.io/rook''\<rparr>"

definition externalContext :: "string \<Rightarrow> Context" where
  "externalContext admin =
     context0\<lparr>Clientset :=
       emptyClientset\<lparr>SecretsGet :=
         (\<lambda>namespace name. if name = ''rook-ceph-mon'' then Inr (externalSecret admin)
                             else Inl NotFound)\<rparr>\<rparr>"

definition externalInfo :: "string \<Rightarrow> ExternalCred \<Rightarrow> ClusterInfo" where
  "externalInfo admin cred =
     \<lparr>FSID = ''6ba7b810-9dad-41d1-80b4-00c04fd430c8'',
      MonitorSecret = ''mon-secret'', AdminSecret = admin,
      Name = ''rook-ceph'', Monitors = [],
      ExternalCred = cred\<rparr>"

text \<open>
  Other answers of the API server of an external cluster: besides the identity secret, the
  lookups of the other secrets are answered by a given function. \<open>unreachable0\<close> fails
  one of them with a status other than "not found"; \<open>withCreds0\<close> holds the operator
  credentials.
\<close>

definition operatorCredsSecret :: Secret where
  "operatorCredsSecret =
     \<lparr>ObjectMeta = \<lparr>ObjectName = ''rook-ceph-operator-creds'', Namespace = ''rook-ceph'',
                    OwnerReferences = []\<rparr>,
      Data = [''userID'' \<mapsto> ''client.healthchecker'', ''userKey'' \<mapsto> ''AQBhealth==''],
      Type = ''kubernetes.io/rook''\<rparr>"

definition externalContextWith :: "string \<Rightarrow> (string \<Rightarrow> StatusReason + Secret) \<Rightarrow> Context" where
  "externalContextWith admin others =
     context0\<lparr>Clientset :=
       emptyClientset\<lparr>SecretsGet :=
         (\<lambda>namespace name. if name = ''rook-ceph-mon'' then Inr (externalSecret admin)
                             else others name)\<rparr>\<rparr>"

definition unreachable0 :: "string \<Rightarrow> StatusReason + Secret" where
  "unreachable0 name =
     (if name = ''rook-csi-rbd-node'' then Inl (OtherReason ''timeout'') else Inl NotFound)"

definition withCreds0 :: "string \<Rightarrow> StatusReason + Secret" where
  "withCreds0 name =
     (if name = ''rook-ceph-operator-creds'' then Inr operatorCredsSecret else Inl NotFound)"

text \<open>
  An operator whose first cluster has started, on a server that reports Kubernetes 1.9,
  with the minimum \<open>1.13\<close> that the log line of \<open>updateDrivers\<close> names.
\<close>

definition drivers0 :: drivers where
  "drivers0 =
     \<lparr>EnableFlexDriver = True,
      KubeMinMajor = ''1'',
      KubeMinMinor = ''13'',
      agentStart = None,
      ServerVersion = Inr \<lparr>Major = ''1'', Minor = ''9'', GitVersion = ''v1.9.0''\<rparr>,
      SetParams = (\<lambda>c. (None, c)),
      CSIEnabled = (\<lambda>c. EnableRBD c \<or> EnableCephFS c),
      getDeploymentOwnerReference = Inr ownerRef0,
      CreateCsiConfigMap = (\<lambda>ownerRef. None),
      ValidateCSIParam = None\<rparr>"

definition operator0 :: Operator where
  "operator0 = \<lparr>operatorNamespace = ''rook-ceph'', delayedDaemonsStarted = True\<rparr>"

text \<open>The default document and the override text of \<open>TestGenerateConfigFile\<close>.\<close>

definition defaultDocument0 :: ConfigDocument where
  "defaultDocument0 =
     [(''global'', [''fsid'' \<mapsto> ''myfsid'', ''mon initial members'' \<mapsto> ''mon0'',
                    ''mon host'' \<mapsto> ''[v2:10.0.0.1:3300,v1:10.0.0.1:6789]''])]"

definition override0 :: string where
  "override0 = ''[global]'' @ [CHR 0x0A] @ '' bluestore_min_alloc_size_hdd = 4096''"

section \<open>Properties\<close>

lemmas lib_defs = Fields_def spaceWidth_def asciiSpace_def unicodeSpace2_def unicodeSpace3_def
  path_Join_def path_Clean_def filepath_Clean_def Atoi_def isDigit_def

lemmas fix_defs = pkg0_def parse0_def index0_def grep0_def scan0_def setOwnerRef0_def keyring0_def
  adminKeyring0_def emptyClientset_def withConfigMap_def host0_def context0_def ownerRef0_def

subsection \<open>ExtractKey\<close>

lemma fieldsFrom_nonempty: "f \<in> set (fieldsFrom cur s) \<Longrightarrow> f \<noteq> []"
  by (induction cur s rule: fieldsFrom.induct) (auto split: if_splits)

lemma Fields_nonempty: "f \<in> set (Fields s) \<Longrightarrow> f \<noteq> []"
  unfolding Fields_def by (rule fieldsFrom_nonempty)

text \<open>
  C10. \<open>ExtractKey\<close> returns the third white-space separated field of the line that
  \<open>Grep\<close> finds for \<open>key\<close> when that line has at least three fields, and the error
  \<open>failed to parse secret\<close> for every other input. A field is never empty, so the
  secret returned is never empty: an empty secret never comes with a nil error.
\<close>

theorem ExtractKey_third_field:
  "ExtractKey K contents =
     (if 3 \<le> length (Fields (Grep K contents ''key''))
      then Inr (Fields (Grep K contents ''key'') ! 2)
      else Inl (errors_New ''failed to parse secret''))
   \<and> (3 \<le> length (Fields (Grep K contents ''key'')) \<longrightarrow>
        Fields (Grep K contents ''key'') ! 2 \<noteq> [])
   \<and> ExtractKey K contents \<noteq> Inr []"
proof -
  let ?slice = "Fields (Grep K contents ''key'')"
  have third: "?slice ! 2 \<noteq> []" if "3 \<le> length ?slice"
  proof -
    from that have "?slice ! 2 \<in> set ?slice" by simp
    then show ?thesis by (rule Fields_nonempty)
  qed
  then show ?thesis
    by (auto simp: ExtractKey_def Let_def)
qed

theorem ExtractKey_third_field_witness:
  "3 \<le> length (Fields (Grep pkg0 keyring0 ''key'')) \<and>
   ExtractKey pkg0 keyring0 = Inr ''AQBsecret=='' \<and>
   ExtractKey pkg0 ''no such line'' = Inl (errors_New ''failed to parse secret'')"
  using ExtractKey_third_field [of pkg0 keyring0] ExtractKey_third_field [of pkg0 "''no such line''"]
  by (simp add: fix_defs lib_defs)

subsection \<open>CreateOrLoadClusterInfo without an owner\<close>

text \<open>
  C2. When the API server holds no identity secret for the namespace (the lookup answers
  "not found") and \<open>CreateOrLoadClusterInfo\<close> is called with a nil owner reference, it
  returns the error \<open>not expected to create new cluster info and did not find existing
  secret\<close> beside a nil cluster info, and the only call that left the process is the
  lookup itself: no secret is created, no random ID is drawn and no key is generated.
\<close>

theorem no_create_without_owner:
  assumes "SecretsGet (Clientset context) namespace (AppName K) = Inl err"
    and "IsNotFound err"
  shows "CreateOrLoadClusterInfo K H context namespace None =
           ((None, - 1, emptyMapping,
             Some (errors_New
               ''not expected to create new cluster info and did not find existing secret'')),
            [SecretsGetCall namespace (AppName K)])"
  using assms by (simp add: CreateOrLoadClusterInfo_def findOrCreate_def)

theorem no_create_without_owner_witness:
  "SecretsGet (Clientset context0) ''rook-ceph'' (AppName pkg0) = Inl NotFound \<and>
   IsNotFound NotFound \<and>
   CreateOrLoadClusterInfo pkg0 host0 context0 ''rook-ceph'' None =
     ((None, - 1, emptyMapping,
       Some (errors_New
         ''not expected to create new cluster info and did not find existing secret'')),
      [SecretsGetCall ''rook-ceph'' ''rook-ceph-mon''])"
proof -
  have g: "SecretsGet (Clientset context0) ''rook-ceph'' (AppName pkg0) = Inl NotFound"
    by (simp add: context0_def emptyClientset_def)
  have n: "IsNotFound NotFound" by (simp add: IsNotFound_def)
  show ?thesis
    using no_create_without_owner [OF g n, of host0] g n by (simp add: pkg0_def)
qed

subsection \<open>ValidateAndLoadExternalClusterSecrets\<close>

lemma lookupSecrets_None:
  "fst (lookupSecrets clientset namespace names) = None \<longleftrightarrow>
     (\<forall>name \<in> set names. \<forall>e. SecretsGet clientset namespace name = Inl e \<longrightarrow> IsNotFound e)"
  by (induction names) (auto split: sum.splits prod.splits)

lemma lookupSecrets_Some:
  "fst (lookupSecrets clientset namespace names) = Some x \<Longrightarrow>
     \<exists>name \<in> set names. \<exists>e. SecretsGet clientset namespace name = Inl e \<and> \<not> IsNotFound e \<and>
        x = errors_Wrap (StatusError e) ''failed to get %q secret'' [name]"
  by (induction names) (auto split: sum.splits prod.splits if_splits)

lemma validate_results:
  "(snd (fst (ValidateAndLoadExternalClusterSecrets K context namespace)) = None \<longleftrightarrow>
      (\<forall>name \<in> set (externalSecretNames K). \<forall>e.
          SecretsGet (Clientset context) namespace name = Inl e \<longrightarrow> IsNotFound e))
   \<and> (\<forall>e. SecretsGet (Clientset context) namespace (OperatorCreds K) = Inl e \<longrightarrow>
          fst (fst (ValidateAndLoadExternalClusterSecrets K context namespace)) =
            \<lparr>Username = [], Secret = []\<rparr>)
   \<and> (\<forall>x. snd (fst (ValidateAndLoadExternalClusterSecrets K context namespace)) = Some x \<longrightarrow>
          (\<exists>name \<in> set (externalSecretNames K). \<exists>e fmt args.
              SecretsGet (Clientset context) namespace name = Inl e \<and> \<not> IsNotFound e \<and>
              x = errors_Wrap (StatusError e) fmt args))"
proof -
  let ?four = "[CsiRBDNodeSecret K, CsiRBDProvisionerSecret K,
                CsiCephFSNodeSecret K, CsiCephFSProvisionerSecret K]"
  let ?r = "lookupSecrets (Clientset context) namespace ?four"
  have four_None: "fst ?r = None \<longleftrightarrow>
      (\<forall>name \<in> set ?four. \<forall>e. SecretsGet (Clientset context) namespace name = Inl e \<longrightarrow> IsNotFound e)"
    by (rule lookupSecrets_None)
  have four_Some: "\<exists>name \<in> set ?four. \<exists>e. SecretsGet (Clientset context) namespace name = Inl e \<and>
        \<not> IsNotFound e \<and> x = errors_Wrap (StatusError e) ''failed to get %q secret'' [name]"
    if "fst ?r = Some x" for x
    using that by (rule lookupSecrets_Some)
  show ?thesis
  proof (cases "SecretsGet (Clientset context) namespace (OperatorCreds K)")
    case (Inl e)
    show ?thesis
    proof (cases "IsNotFound e")
      case True
      with Inl four_None four_Some show ?thesis
        by (cases ?r)
          (auto simp: ValidateAndLoadExternalClusterSecrets_def externalSecretNames_def Let_def
            secretData_def lookupOrEmpty_def simp del: lookupSecrets.simps)
    next
      case False
      with Inl show ?thesis
        by (auto simp: ValidateAndLoadExternalClusterSecrets_def externalSecretNames_def Let_def
            simp del: lookupSecrets.simps)
    qed
  next
    case (Inr s)
    with four_None four_Some show ?thesis
      by (cases ?r)
        (auto simp: ValidateAndLoadExternalClusterSecrets_def externalSecretNames_def Let_def
          simp del: lookupSecrets.simps)
  qed
qed

text \<open>
  C9. \<open>ValidateAndLoadExternalClusterSecrets\<close> returns a nil error exactly when none of
  its five lookups answers with a status other than "not found": a missing secret is no
  error. When the lookup of the operator credentials fails, the credential returned has
  an empty user name and an empty secret. An error that is returned wraps the status of
  a lookup that failed with something other than "not found".
\<close>

theorem not_found_is_no_error:
  "(snd (fst (ValidateAndLoadExternalClusterSecrets K context namespace)) = None \<longleftrightarrow>
      (\<forall>name \<in> set (externalSecretNames K). \<forall>e.
          SecretsGet (Clientset context) namespace name = Inl e \<longrightarrow> IsNotFound e))
   \<and> (\<forall>e. SecretsGet (Clientset context) namespace (OperatorCreds K) = Inl e \<longrightarrow>
          fst (fst (ValidateAndLoadExternalClusterSecrets K context namespace)) =
            \<lparr>Username = [], Secret = []\<rparr>)
   \<and> (\<forall>x. snd (fst (ValidateAndLoadExternalClusterSecrets K context namespace)) = Some x \<longrightarrow>
          (\<exists>name \<in> set (externalSecretNames K). \<exists>e fmt args.
              SecretsGet (Clientset context) namespace name = Inl e \<and> \<not> IsNotFound e \<and>
              x = errors_Wrap (StatusError e) fmt args))"
  by (rule validate_results)

theorem not_found_is_no_error_witness:
  "SecretsGet (Clientset context0) ''rook-ceph'' (OperatorCreds pkg0) = Inl NotFound \<and>
   fst (ValidateAndLoadExternalClusterSecrets pkg0 context0 ''rook-ceph'') =
     (\<lparr>Username = [], Secret = []\<rparr>, None)"
proof -
  have all: "\<forall>name \<in> set (externalSecretNames pkg0). \<forall>e.
       SecretsGet (Clientset context0) ''rook-ceph'' name = Inl e \<longrightarrow> IsNotFound e"
    by (simp add: context0_def emptyClientset_def IsNotFound_def)
  have g: "SecretsGet (Clientset context0) ''rook-ceph'' (OperatorCreds pkg0) = Inl NotFound"
    by (simp add: context0_def emptyClientset_def)
  from not_found_is_no_error [of pkg0 context0 "''rook-ceph''"] all g
  show ?thesis by (simp add: prod_eq_iff)
qed

subsection \<open>loadMonConfig\<close>

lemma Max_insert_max:
  "finite S \<Longrightarrow> Max (insert (max a b) S) = Max (insert a (insert b S))"
  by (cases "S = {}") (simp_all add: max.assoc)

lemma maxMonIDLoop_Max:
  "maxMonIDLoop K n mons = Max (insert n (monIDs K mons))"
proof (induction mons arbitrary: n)
  case Nil
  show ?case by (simp add: monIDs_def)
next
  case (Cons entry mons)
  obtain k m where entry: "entry = (k, m)" by (cases entry)
  let ?i = "fst (fullNameToIndex K (MonName m))"
  have "maxMonIDLoop K n (entry # mons) = maxMonIDLoop K (max n ?i) mons"
    by (simp add: entry Let_def max_def)
  also have "\<dots> = Max (insert (max n ?i) (monIDs K mons))"
    by (rule Cons.IH)
  also have "\<dots> = Max (insert n (insert ?i (monIDs K mons)))"
    by (rule Max_insert_max) (simp add: monIDs_def)
  also have "insert ?i (monIDs K mons) = monIDs K (entry # mons)"
    by (simp add: monIDs_def entry)
  finally show ?case .
qed

lemma loadMonConfig_found:
  assumes "ConfigMapsGet clientset namespace (EndpointConfigMapName K) = Inr cm"
  shows "fst (loadMonConfig K clientset namespace) =
           (readMons K cm, maxMonIDLoop K (readCounter K cm) (readMons K cm),
            fst (readMapping K cm), None)"
  using assms
  by (simp add: loadMonConfig_def readMons_def readCounter_def readMapping_def Let_def
      split: option.splits prod.splits)

lemma loadMonConfig_log_counter:
  assumes "ConfigMapsGet clientset namespace (EndpointConfigMapName K) = Inr cm"
    and "ConfigMapData cm (MaxMonIDKey K) = Some s" and "snd (Atoi s) \<noteq> None"
  shows "LogCall Errorf ''invalid max mon id %q. %v'' \<in> set (snd (loadMonConfig K clientset namespace))"
  using assms
  by (auto simp: loadMonConfig_def Let_def split: option.splits prod.splits)

lemma loadMonConfig_log_mapping:
  assumes "ConfigMapsGet clientset namespace (EndpointConfigMapName K) = Inr cm"
    and "snd (readMapping K cm) \<noteq> None"
  shows "LogCall Errorf ''invalid JSON in mon mapping. %v'' \<in> set (snd (loadMonConfig K clientset namespace))"
  using assms
  by (auto simp: loadMonConfig_def readMapping_def Let_def split: option.splits prod.splits)

lemma Atoi_syntax_zero: "snd (Atoi s) = Some (ErrSyntax x) \<Longrightarrow> fst (Atoi s) = 0"
  by (auto simp: Atoi_def Let_def split: option.splits prod.splits if_splits)

text \<open>
  C1. For every membership record that is found, \<open>loadMonConfig\<close> returns the monitors
  parsed from it, and its \<open>maxMonID\<close> is the maximum of the counter read from the record
  and the indices of all monitor names. So \<open>maxMonID\<close> is at least the index of every
  monitor and at least the counter read: the loop only raises it. For a counter that
  \<open>Atoi\<close> parses to \<open>n\<close> it is the maximum of \<open>n\<close> and the indices.
\<close>

theorem maxMonID_is_maximum:
  assumes "ConfigMapsGet clientset namespace (EndpointConfigMapName K) = Inr cm"
  shows "fst (fst (loadMonConfig K clientset namespace)) = readMons K cm \<and>
         fst (snd (fst (loadMonConfig K clientset namespace))) =
           Max (insert (readCounter K cm) (monIDs K (readMons K cm))) \<and>
         (\<forall>i \<in> monIDs K (readMons K cm). i \<le> fst (snd (fst (loadMonConfig K clientset namespace)))) \<and>
         readCounter K cm \<le> fst (snd (fst (loadMonConfig K clientset namespace))) \<and>
         (\<forall>s n. ConfigMapData cm (MaxMonIDKey K) = Some s \<and> Atoi s = (n, None) \<longrightarrow>
            fst (snd (fst (loadMonConfig K clientset namespace))) =
              Max (insert n (monIDs K (readMons K cm))))"
proof -
  let ?ids = "monIDs K (readMons K cm)"
  have fin: "finite (insert (readCounter K cm) ?ids)" by (simp add: monIDs_def)
  have res: "fst (snd (fst (loadMonConfig K clientset namespace))) = Max (insert (readCounter K cm) ?ids)"
    by (simp add: loadMonConfig_found [OF assms] maxMonIDLoop_Max)
  have mons: "fst (fst (loadMonConfig K clientset namespace)) = readMons K cm"
    by (simp add: loadMonConfig_found [OF assms])
  have ge: "x \<le> Max (insert (readCounter K cm) ?ids)" if "x \<in> insert (readCounter K cm) ?ids" for x
    using fin that by (rule Max_ge)
  have dec: "readCounter K cm = n" if "ConfigMapData cm (MaxMonIDKey K) = Some s" "Atoi s = (n, None)" for s n
    using that by (simp add: readCounter_def)
  show ?thesis
    using res mons ge dec by auto
qed

theorem maxMonID_is_maximum_witness:
  "ConfigMapsGet (withConfigMap members0) ''rook-ceph'' (EndpointConfigMapName pkg0) =
     Inr \<lparr>ConfigMapData = members0\<rparr> \<and>
   readCounter pkg0 \<lparr>ConfigMapData = members0\<rparr> = 1 \<and>
   fst (snd (fst (loadMonConfig pkg0 (withConfigMap members0) ''rook-ceph''))) = 2"
proof -
  have g: "ConfigMapsGet (withConfigMap members0) ''rook-ceph'' (EndpointConfigMapName pkg0) =
     Inr \<lparr>ConfigMapData = members0\<rparr>"
    by (simp add: withConfigMap_def pkg0_def)
  have c: "readCounter pkg0 \<lparr>ConfigMapData = members0\<rparr> = 1"
    by (simp add: readCounter_def members0_def pkg0_def Atoi_def isDigit_def)
  have m: "monIDs pkg0 (readMons pkg0 \<lparr>ConfigMapData = members0\<rparr>) = {0, 2}"
    by (simp add: monIDs_def readMons_def members0_def pkg0_def parse0_def index0_def)
  from maxMonID_is_maximum [OF g] g c m show ?thesis by simp
qed

text \<open>
  C5, as the claim states it, fails: with the counter \<open>abc\<close> and no monitors the load
  returns a nil error and \<open>maxMonID\<close> 0.
\<close>

theorem unparseable_counter_no_error:
  "snd (Atoi ''abc'') = Some (ErrSyntax ''abc'') \<and>
   fst (loadMonConfig pkg0 (withConfigMap [''maxMonId'' \<mapsto> ''abc'']) ''rook-ceph'') =
     ([], 0, emptyMapping, None)"
  by (simp add: loadMonConfig_def withConfigMap_def pkg0_def Atoi_def isDigit_def
      lookupOrEmpty_def scan0_def json_Unmarshal_def emptyMapping_def)

text \<open>
  C5, amended. When the counter of the record is not a number that \<open>Atoi\<close> accepts, the
  load does not fail: it logs \<open>invalid max mon id\<close>, goes on with the value \<open>Atoi\<close>
  returned (0 after a syntax error), raises it to the largest index among the monitor
  names, and returns the parsed monitors with a nil error.
\<close>

theorem unparseable_counter_is_logged:
  assumes "ConfigMapsGet clientset namespace (EndpointConfigMapName K) = Inr cm"
    and "ConfigMapData cm (MaxMonIDKey K) = Some s"
    and "snd (Atoi s) \<noteq> None"
  shows "snd (snd (snd (fst (loadMonConfig K clientset namespace)))) = None \<and>
         fst (fst (loadMonConfig K clientset namespace)) = readMons K cm \<and>
         fst (snd (fst (loadMonConfig K clientset namespace))) =
           Max (insert (fst (Atoi s)) (monIDs K (readMons K cm))) \<and>
         LogCall Errorf ''invalid max mon id %q. %v'' \<in> set (snd (loadMonConfig K clientset namespace)) \<and>
         (snd (Atoi s) = Some (ErrSyntax s) \<longrightarrow> fst (Atoi s) = 0)"
proof -
  have "readCounter K cm = fst (Atoi s)"
    using assms(2) by (simp add: readCounter_def)
  then show ?thesis
    using loadMonConfig_found [OF assms(1)] loadMonConfig_log_counter [OF assms]
      Atoi_syntax_zero [of s s]
    by (simp add: maxMonIDLoop_Max)
qed

theorem unparseable_counter_is_logged_witness:
  "ConfigMapsGet (withConfigMap [''maxMonId'' \<mapsto> ''abc'']) ''rook-ceph'' (EndpointConfigMapName pkg0) =
     Inr \<lparr>ConfigMapData = [''maxMonId'' \<mapsto> ''abc'']\<rparr> \<and>
   snd (Atoi ''abc'') \<noteq> None \<and>
   snd (snd (snd (fst (loadMonConfig pkg0 (withConfigMap [''maxMonId'' \<mapsto> ''abc'']) ''rook-ceph'')))) = None \<and>
   LogCall Errorf ''invalid max mon id %q. %v''
     \<in> set (snd (loadMonConfig pkg0 (withConfigMap [''maxMonId'' \<mapsto> ''abc'']) ''rook-ceph''))"
proof -
  have g: "ConfigMapsGet (withConfigMap [''maxMonId'' \<mapsto> ''abc'']) ''rook-ceph'' (EndpointConfigMapName pkg0) =
     Inr \<lparr>ConfigMapData = [''maxMonId'' \<mapsto> ''abc'']\<rparr>"
    by (simp add: withConfigMap_def pkg0_def)
  have k: "ConfigMapData \<lparr>ConfigMapData = [''maxMonId'' \<mapsto> ''abc'']\<rparr> (MaxMonIDKey pkg0) = Some ''abc''"
    by (simp add: pkg0_def)
  have a: "snd (Atoi ''abc'') \<noteq> None"
    by (simp add: Atoi_def isDigit_def)
  from unparseable_counter_is_logged [OF g k a] g a show ?thesis by simp
qed

text \<open>
  C6. When the mapping of a found membership record is malformed JSON, \<open>loadMonConfig\<close>
  still returns a nil error, with the parsed monitors, the \<open>maxMonID\<close> of C1 and the
  empty mapping; the failure only shows as the log line \<open>invalid JSON in mon mapping\<close>.
\<close>

theorem malformed_mapping_is_logged:
  assumes "ConfigMapsGet clientset namespace (EndpointConfigMapName K) = Inr cm"
    and "scanMapping K (lookupOrEmpty (ConfigMapData cm) (MappingKey K)) = Malformed msg"
  shows "fst (loadMonConfig K clientset namespace) =
           (readMons K cm, Max (insert (readCounter K cm) (monIDs K (readMons K cm))),
            Some \<lparr>Node = Map.empty\<rparr>, None) \<and>
         LogCall Errorf ''invalid JSON in mon mapping. %v'' \<in> set (snd (loadMonConfig K clientset namespace))"
proof -
  have r: "readMapping K cm = (emptyMapping, Some (JSONError msg))"
    using assms(2) by (simp add: readMapping_def json_Unmarshal_def)
  then have "snd (readMapping K cm) \<noteq> None" by simp
  from loadMonConfig_log_mapping [OF assms(1) this] loadMonConfig_found [OF assms(1)] r
  show ?thesis by (simp add: maxMonIDLoop_Max emptyMapping_def)
qed

theorem malformed_mapping_is_logged_witness:
  "scanMapping pkg0 (lookupOrEmpty members1 (MappingKey pkg0)) = Malformed ''invalid character'' \<and>
   snd (snd (fst (loadMonConfig pkg0 (withConfigMap members1) ''rook-ceph''))) =
     (Some \<lparr>Node = Map.empty\<rparr>, None) \<and>
   fst (snd (fst (loadMonConfig pkg0 (withConfigMap members1) ''rook-ceph''))) = 2"
proof -
  have g: "ConfigMapsGet (withConfigMap members1) ''rook-ceph'' (EndpointConfigMapName pkg0) =
     Inr \<lparr>ConfigMapData = members1\<rparr>"
    by (simp add: withConfigMap_def pkg0_def)
  have j: "scanMapping pkg0 (lookupOrEmpty (ConfigMapData \<lparr>ConfigMapData = members1\<rparr>) (MappingKey pkg0)) =
     Malformed ''invalid character''"
    by (simp add: pkg0_def scan0_def lookupOrEmpty_def members1_def)
  have c: "readCounter pkg0 \<lparr>ConfigMapData = members1\<rparr> = 1"
    by (simp add: readCounter_def members1_def pkg0_def Atoi_def isDigit_def)
  have m: "monIDs pkg0 (readMons pkg0 \<lparr>ConfigMapData = members1\<rparr>) = {0, 2}"
    by (simp add: monIDs_def readMons_def members1_def pkg0_def parse0_def index0_def)
  from malformed_mapping_is_logged [OF g j] j c m show ?thesis by simp
qed

subsection \<open>Creating the identity\<close>

lemma executions_append: "executions (a @ b) = executions a @ executions b"
  by (induction a rule: executions.induct) simp_all

lemma creations_append: "creations (a @ b) = creations a @ creations b"
  by (induction a rule: creations.induct) simp_all

lemma randoms_append: "randoms (a @ b) = randoms a + randoms b"
  by (induction a rule: randoms.induct) simp_all

lemma sleeps_append: "sleeps (a @ b) = sleeps a @ sleeps b"
  by (induction a rule: sleeps.induct) simp_all

lemma loadMonConfig_calls:
  "executions (snd (loadMonConfig K clientset namespace)) = [] \<and>
   creations (snd (loadMonConfig K clientset namespace)) = [] \<and>
   randoms (snd (loadMonConfig K clientset namespace)) = 0 \<and>
   sleeps (snd (loadMonConfig K clientset namespace)) = []"
  by (simp add: loadMonConfig_def Let_def executions_append creations_append randoms_append
      sleeps_append split: sum.splits option.splits prod.splits)

lemma createNamedClusterInfo_result:
  assumes "NewRandom H = Inr fsid"
    and "MkdirAll H (path_Join [ConfigDir context, clusterName]) 484 = None"
    and "Executor context ''ceph-authtool''
           [''--create-keyring'', keyringPath (path_Join [ConfigDir context, clusterName]) ''mon.'',
            ''--gen-key'', ''-n'', ''mon.'',
            ''--cap'', ''mon'', quoted ''allow *''] = Inr monOutput"
    and "ReadFile H (filepath_Clean
           (keyringPath (path_Join [ConfigDir context, clusterName]) ''mon.'')) = Inr monKeyring"
    and "ExtractKey K monKeyring = Inr monSecret"
    and "Executor context ''ceph-authtool''
           [''--create-keyring'',
            keyringPath (path_Join [ConfigDir context, clusterName]) (AdminUsername K),
            ''--gen-key'', ''-n'', AdminUsername K,
            ''--cap'', ''mon'', quoted ''allow *'',
            ''--cap'', ''osd'', quoted ''allow *'',
            ''--cap'', ''mgr'', quoted ''allow *'',
            ''--cap'', ''mds'', quoted ''allow''] = Inr adminOutput"
    and "ReadFile H (filepath_Clean
           (keyringPath (path_Join [ConfigDir context, clusterName]) (AdminUsername K))) =
           Inr adminKeyring"
    and "ExtractKey K adminKeyring = Inr adminSecret"
  shows "createNamedClusterInfo K H context clusterName =
           (Inr \<lparr>FSID = uuid_String fsid, MonitorSecret = monSecret, AdminSecret = adminSecret,
                 Name = clusterName, Monitors = [],
                 ExternalCred = \<lparr>Username = [], Secret = []\<rparr>\<rparr>,
            [NewRandomCall,
             MkdirAllCall (path_Join [ConfigDir context, clusterName]) 484,
             ExecuteCall ''ceph-authtool''
               [''--create-keyring'',
                keyringPath (path_Join [ConfigDir context, clusterName]) ''mon.'',
                ''--gen-key'', ''-n'', ''mon.'',
                ''--cap'', ''mon'', quoted ''allow *''],
             ReadFileCall (filepath_Clean
                (keyringPath (path_Join [ConfigDir context, clusterName]) ''mon.'')),
             ExecuteCall ''ceph-authtool''
               [''--create-keyring'',
                keyringPath (path_Join [ConfigDir context, clusterName]) (AdminUsername K),
                ''--gen-key'', ''-n'', AdminUsername K,
                ''--cap'', ''mon'', quoted ''allow *'',
                ''--cap'', ''osd'', quoted ''allow *'',
                ''--cap'', ''mgr'', quoted ''allow *'',
                ''--cap'', ''mds'', quoted ''allow''],
             ReadFileCall (filepath_Clean
                (keyringPath (path_Join [ConfigDir context, clusterName]) (AdminUsername K)))])"
  using assms
  by (simp add: createNamedClusterInfo_def genSecret_def Let_def keyringPath_def)

text \<open>
  C7, as the claim states it, fails: in a run that creates the identity, the key tool is
  called twice and one secret is created, but no call gives \<open>mds\<close> the capability
  \<open>'allow *'\<close>.
\<close>

theorem admin_key_mds_allow:
  "(''ceph-authtool'',
    [''--create-keyring'', ''/var/lib/rook/rook-ceph/client.admin.keyring'', ''--gen-key'', ''-n'',
     ''client.admin'',
     ''--cap'', ''mon'', quoted ''allow *'', ''--cap'', ''osd'', quoted ''allow *'',
     ''--cap'', ''mgr'', quoted ''allow *'', ''--cap'', ''mds'', quoted ''allow *''])
     \<notin> set (executions (snd (CreateOrLoadClusterInfo pkg0 host0 context0 ''rook-ceph'' (Some ownerRef0)))) \<and>
   length (executions (snd (CreateOrLoadClusterInfo pkg0 host0 context0 ''rook-ceph'' (Some ownerRef0)))) = 2 \<and>
   length (creations (snd (CreateOrLoadClusterInfo pkg0 host0 context0 ''rook-ceph'' (Some ownerRef0)))) = 1"
  by (simp add: CreateOrLoadClusterInfo_def findOrCreate_def createClusterAccessSecret_def
      createNamedClusterInfo_def genSecret_def ExtractKey_def loadMonConfig_def IsNotFound_def
      fix_defs lib_defs quoted_def Let_def)

text \<open>
  C7, amended. When the identity secret is not found, an owner reference is given, and
  the random source, the directory, the two runs of the key tool, the reading of the two
  keyrings and the extraction of the two keys succeed, the run draws one random UUID,
  whose text is the FSID; it calls the key tool exactly twice, first for \<open>mon.\<close> with the
  capability \<open>mon 'allow *'\<close>, then for the admin user with \<open>mon\<close>, \<open>osd\<close> and \<open>mgr\<close> at
  \<open>'allow *'\<close> and \<open>mds\<close> at \<open>'allow'\<close>; and it makes exactly one create call, for one
  secret whose data holds the four fields: the name, the FSID, as monitor secret the key
  extracted from the keyring read at the path of \<open>mon.\<close>, and as admin secret the key
  extracted from the keyring read at the path of the admin user. When the create call and
  the loading of the monitors succeed too, the cluster info returned holds the same four
  values.
\<close>

theorem identity_creation_calls:
  assumes "SecretsGet (Clientset context) namespace (AppName K) = Inl err"
    and "IsNotFound err"
    and "NewRandom H = Inr fsid"
    and "MkdirAll H (path_Join [ConfigDir context, namespace]) 484 = None"
    and "Executor context ''ceph-authtool''
           [''--create-keyring'', keyringPath (path_Join [ConfigDir context, namespace]) ''mon.'',
            ''--gen-key'', ''-n'', ''mon.'',
            ''--cap'', ''mon'', quoted ''allow *''] = Inr monOutput"
    and "ReadFile H (filepath_Clean
           (keyringPath (path_Join [ConfigDir context, namespace]) ''mon.'')) = Inr monKeyring"
    and "ExtractKey K monKeyring = Inr monSecret"
    and "Executor context ''ceph-authtool''
           [''--create-keyring'',
            keyringPath (path_Join [ConfigDir context, namespace]) (AdminUsername K),
            ''--gen-key'', ''-n'', AdminUsername K,
            ''--cap'', ''mon'', quoted ''allow *'',
            ''--cap'', ''osd'', quoted ''allow *'',
            ''--cap'', ''mgr'', quoted ''allow *'',
            ''--cap'', ''mds'', quoted ''allow''] = Inr adminOutput"
    and "ReadFile H (filepath_Clean
           (keyringPath (path_Join [ConfigDir context, namespace]) (AdminUsername K))) =
           Inr adminKeyring"
    and "ExtractKey K adminKeyring = Inr adminSecret"
  shows "randoms (snd (CreateOrLoadClusterInfo K H context namespace (Some ownerRef))) = 1 \<and>
         executions (snd (CreateOrLoadClusterInfo K H context namespace (Some ownerRef))) =
           [(''ceph-authtool'',
             [''--create-keyring'',
              keyringPath (path_Join [ConfigDir context, namespace]) ''mon.'',
              ''--gen-key'', ''-n'', ''mon.'',
              ''--cap'', ''mon'', quoted ''allow *'']),
            (''ceph-authtool'',
             [''--create-keyring'',
              keyringPath (path_Join [ConfigDir context, namespace]) (AdminUsername K),
              ''--gen-key'', ''-n'', AdminUsername K,
              ''--cap'', ''mon'', quoted ''allow *'',
              ''--cap'', ''osd'', quoted ''allow *'',
              ''--cap'', ''mgr'', quoted ''allow *'',
              ''--cap'', ''mds'', quoted ''allow''])] \<and>
         creations (snd (CreateOrLoadClusterInfo K H context namespace (Some ownerRef))) =
           [(namespace,
             \<lparr>ObjectMeta =
                SetOwnerRef K
                  \<lparr>ObjectName = AppName K, Namespace = namespace, OwnerReferences = []\<rparr>
                  (Some ownerRef),
              Data = [clusterSecretName K \<mapsto> namespace,
                      fsidSecretName K \<mapsto> uuid_String fsid,
                      monSecretName K \<mapsto> monSecret,
                      AdminSecretName K \<mapsto> adminSecret],
              Type = RookType K\<rparr>)] \<and>
         (SecretsCreate (Clientset context) namespace
            \<lparr>ObjectMeta =
                SetOwnerRef K
                  \<lparr>ObjectName = AppName K, Namespace = namespace, OwnerReferences = []\<rparr>
                  (Some ownerRef),
              Data = [clusterSecretName K \<mapsto> namespace,
                      fsidSecretName K \<mapsto> uuid_String fsid,
                      monSecretName K \<mapsto> monSecret,
                      AdminSecretName K \<mapsto> adminSecret],
              Type = RookType K\<rparr> = None \<and>
          snd (snd (snd (fst (loadMonConfig K (Clientset context) namespace)))) = None \<longrightarrow>
          fst (fst (CreateOrLoadClusterInfo K H context namespace (Some ownerRef))) =
            Some \<lparr>FSID = uuid_String fsid, MonitorSecret = monSecret, AdminSecret = adminSecret,
                  Name = namespace,
                  Monitors = fst (fst (loadMonConfig K (Clientset context) namespace)),
                  ExternalCred = \<lparr>Username = [], Secret = []\<rparr>\<rparr>)"
proof -
  note created = createNamedClusterInfo_result [OF assms(3-10)]
  let ?load = "snd (loadMonConfig K (Clientset context) namespace)"
  have load: "executions ?load = []" "creations ?load = []" "randoms ?load = 0"
    using loadMonConfig_calls [of K "Clientset context" namespace] by simp_all
  show ?thesis
    using assms(1,2) load
    by (auto simp: CreateOrLoadClusterInfo_def findOrCreate_def createClusterAccessSecret_def
        Let_def executions_append creations_append randoms_append created
        split: sum.splits option.splits prod.splits)
qed

theorem identity_creation_calls_witness:
  "ExtractKey pkg0 keyring0 = Inr ''AQBsecret=='' \<and>
   ExtractKey pkg0 adminKeyring0 = Inr ''AQBadmin=='' \<and>
   executions (snd (CreateOrLoadClusterInfo pkg0 host0 context0 ''rook-ceph'' (Some ownerRef0))) =
     [(''ceph-authtool'',
       [''--create-keyring'', ''/var/lib/rook/rook-ceph/mon.keyring'', ''--gen-key'', ''-n'', ''mon.'',
        ''--cap'', ''mon'', quoted ''allow *'']),
      (''ceph-authtool'',
       [''--create-keyring'', ''/var/lib/rook/rook-ceph/client.admin.keyring'', ''--gen-key'', ''-n'',
        ''client.admin'',
        ''--cap'', ''mon'', quoted ''allow *'', ''--cap'', ''osd'', quoted ''allow *'',
        ''--cap'', ''mgr'', quoted ''allow *'', ''--cap'', ''mds'', quoted ''allow''])] \<and>
   map (\<lambda>created. (fst created,
                    Data (snd created) ''cluster-name'', Data (snd created) ''fsid'',
                    Data (snd created) ''mon-secret'', Data (snd created) ''admin-secret''))
     (creations (snd (CreateOrLoadClusterInfo pkg0 host0 context0 ''rook-ceph'' (Some ownerRef0)))) =
     [(''rook-ceph'', Some ''rook-ceph'', Some ''6ba7b810-9dad-41d1-80b4-00c04fd430c8'',
       Some ''AQBsecret=='', Some ''AQBadmin=='')] \<and>
   fst (fst (CreateOrLoadClusterInfo pkg0 host0 context0 ''rook-ceph'' (Some ownerRef0))) =
     Some \<lparr>FSID = ''6ba7b810-9dad-41d1-80b4-00c04fd430c8'', MonitorSecret = ''AQBsecret=='',
           AdminSecret = ''AQBadmin=='', Name = ''rook-ceph'', Monitors = [],
           ExternalCred = \<lparr>Username = [], Secret = []\<rparr>\<rparr>"
proof -
  have g: "SecretsGet (Clientset context0) ''rook-ceph'' (AppName pkg0) = Inl NotFound"
    by (simp add: context0_def emptyClientset_def)
  have n: "IsNotFound NotFound" by (simp add: IsNotFound_def)
  have r: "NewRandom host0 = Inr 0x6ba7b8109dad41d180b400c04fd430c8"
    by (simp add: host0_def)
  have u: "uuid_String 0x6ba7b8109dad41d180b400c04fd430c8 = ''6ba7b810-9dad-41d1-80b4-00c04fd430c8''"
    by (simp add: uuid_String_def hexBytes_def uuidByte_def hexDigit_def drop_bit_eq_div)
  have d: "path_Join [ConfigDir context0, ''rook-ceph''] = ''/var/lib/rook/rook-ceph''"
    by (simp add: context0_def lib_defs)
  have p: "keyringPath ''/var/lib/rook/rook-ceph'' ''mon.'' = ''/var/lib/rook/rook-ceph/mon.keyring''"
          "keyringPath ''/var/lib/rook/rook-ceph'' (AdminUsername pkg0) =
             ''/var/lib/rook/rook-ceph/client.admin.keyring''"
          "filepath_Clean ''/var/lib/rook/rook-ceph/mon.keyring'' =
             ''/var/lib/rook/rook-ceph/mon.keyring''"
          "filepath_Clean ''/var/lib/rook/rook-ceph/client.admin.keyring'' =
             ''/var/lib/rook/rook-ceph/client.admin.keyring''"
    by (simp_all add: keyringPath_def pkg0_def lib_defs)
  have m: "MkdirAll host0 (path_Join [ConfigDir context0, ''rook-ceph'']) 484 = None"
    by (simp add: host0_def)
  have e1: "Executor context0 ''ceph-authtool''
           [''--create-keyring'', keyringPath (path_Join [ConfigDir context0, ''rook-ceph'']) ''mon.'',
            ''--gen-key'', ''-n'', ''mon.'',
            ''--cap'', ''mon'', quoted ''allow *''] = Inr []"
    by (simp add: context0_def)
  have f1: "ReadFile host0 (filepath_Clean
           (keyringPath (path_Join [ConfigDir context0, ''rook-ceph'']) ''mon.'')) = Inr keyring0"
    by (simp add: d p) (simp add: host0_def)
  have k1: "ExtractKey pkg0 keyring0 = Inr ''AQBsecret==''"
    by (simp add: ExtractKey_def fix_defs lib_defs)
  have e2: "Executor context0 ''ceph-authtool''
           [''--create-keyring'',
            keyringPath (path_Join [ConfigDir context0, ''rook-ceph'']) (AdminUsername pkg0),
            ''--gen-key'', ''-n'', AdminUsername pkg0,
            ''--cap'', ''mon'', quoted ''allow *'',
            ''--cap'', ''osd'', quoted ''allow *'',
            ''--cap'', ''mgr'', quoted ''allow *'',
            ''--cap'', ''mds'', quoted ''allow''] = Inr []"
    by (simp add: context0_def)
  have f2: "ReadFile host0 (filepath_Clean
           (keyringPath (path_Join [ConfigDir context0, ''rook-ceph'']) (AdminUsername pkg0))) =
           Inr adminKeyring0"
    by (simp add: d p) (simp add: host0_def)
  have k2: "ExtractKey pkg0 adminKeyring0 = Inr ''AQBadmin==''"
    by (simp add: ExtractKey_def fix_defs lib_defs)
  have a: "AdminUsername pkg0 = ''client.admin''" "clusterSecretName pkg0 = ''cluster-name''"
    "fsidSecretName pkg0 = ''fsid''" "monSecretName pkg0 = ''mon-secret''"
    "AdminSecretName pkg0 = ''admin-secret''"
    by (simp_all add: pkg0_def)
  have c: "SecretsCreate (Clientset context0) ''rook-ceph'' secret = None" for secret
    by (simp add: context0_def emptyClientset_def)
  have l: "fst (loadMonConfig pkg0 (Clientset context0) ''rook-ceph'') = ([], - 1, emptyMapping, None)"
    by (simp add: loadMonConfig_def context0_def emptyClientset_def IsNotFound_def)
  from identity_creation_calls [OF g n r m e1 f1 k1 e2 f2 k2, of ownerRef0] k1 k2 u d p a c l
  show ?thesis by simp
qed

subsection \<open>PopulateExternalClusterInfo\<close>

lemma lookupSecrets_sleeps: "sleeps (snd (lookupSecrets clientset namespace names)) = []"
  by (induction names) (auto split: sum.splits prod.splits)

lemma validate_sleeps:
  "sleeps (snd (ValidateAndLoadExternalClusterSecrets K context namespace)) = []"
  using lookupSecrets_sleeps [of "Clientset context" namespace
      "[CsiRBDNodeSecret K, CsiRBDProvisionerSecret K, CsiCephFSNodeSecret K,
        CsiCephFSProvisionerSecret K]"]
  by (auto simp: ValidateAndLoadExternalClusterSecrets_def Let_def
      simp del: lookupSecrets.simps split: sum.splits prod.splits)

lemma load_sleeps: "sleeps (snd (LoadClusterInfo K H context namespace)) = []"
  using loadMonConfig_calls [of K "Clientset context" namespace]
  by (auto simp: LoadClusterInfo_def CreateOrLoadClusterInfo_def findOrCreate_def Let_def
      sleeps_append split: sum.splits prod.splits option.splits)

lemma round_sleeps:
  "sleeps (snd (populateRound K H context namespace)) =
     (if fst (populateRound K H context namespace) = None then [externalConnectionRetry] else [])"
  using load_sleeps [of K H "context" namespace] validate_sleeps [of K "context" namespace]
  by (auto simp: populateRound_def sleeps_append waiting_def
      split: sum.splits prod.splits option.splits)

lemma populate_waits:
  assumes "\<forall>c \<in> set pre. fst (populateRound K H c namespace) = None"
  shows "fst (PopulateExternalClusterInfo K H (pre @ rest) namespace) =
           fst (PopulateExternalClusterInfo K H rest namespace) \<and>
         sleeps (snd (PopulateExternalClusterInfo K H (pre @ rest) namespace)) =
           replicate (length pre) externalConnectionRetry @
           sleeps (snd (PopulateExternalClusterInfo K H rest namespace))"
  using assms
proof (induction pre)
  case Nil
  show ?case by simp
next
  case (Cons c pre)
  then have none: "fst (populateRound K H c namespace) = None"
    and IH: "fst (PopulateExternalClusterInfo K H (pre @ rest) namespace) =
           fst (PopulateExternalClusterInfo K H rest namespace)"
       "sleeps (snd (PopulateExternalClusterInfo K H (pre @ rest) namespace)) =
           replicate (length pre) externalConnectionRetry @
           sleeps (snd (PopulateExternalClusterInfo K H rest namespace))"
    by simp_all
  obtain ev where round: "populateRound K H c namespace = (None, ev)"
    using none by (cases "populateRound K H c namespace") simp
  have ev: "sleeps ev = [externalConnectionRetry]"
    using round_sleeps [of K H c namespace] round by simp
  show ?case
    using round ev IH by (auto simp: sleeps_append split: prod.splits)
qed

lemma populate_settled:
  assumes "fst (populateRound K H context namespace) = Some r"
  shows "fst (PopulateExternalClusterInfo K H (context # later) namespace) = r \<and>
         sleeps (snd (PopulateExternalClusterInfo K H (context # later) namespace)) = []"
proof -
  obtain ev where round: "populateRound K H context namespace = (Some r, ev)"
    using assms by (cases "populateRound K H context namespace") simp
  have "sleeps ev = []"
    using round_sleeps [of K H "context" namespace] round by simp
  with round show ?thesis by simp
qed

lemma validate_no_error:
  "snd (fst (ValidateAndLoadExternalClusterSecrets K context namespace)) = None \<longleftrightarrow>
      (\<forall>name \<in> set (externalSecretNames K). \<forall>e.
          SecretsGet (Clientset context) namespace name = Inl e \<longrightarrow> IsNotFound e)"
  using validate_results [of K "context" namespace] by (rule conjunct1)

lemma load_Some:
  "snd (snd (snd (fst (LoadClusterInfo K H c namespace)))) = None \<Longrightarrow>
     fst (fst (LoadClusterInfo K H c namespace)) \<noteq> None"
  by (auto simp: LoadClusterInfo_def CreateOrLoadClusterInfo_def Let_def
      split: sum.splits prod.splits option.splits)

lemma validate_credential:
  "snd (fst (ValidateAndLoadExternalClusterSecrets K c namespace)) = None \<Longrightarrow>
     fst (fst (ValidateAndLoadExternalClusterSecrets K c namespace)) =
       (case SecretsGet (Clientset c) namespace (OperatorCreds K) of
          Inl e \<Rightarrow> \<lparr>Username = [], Secret = []\<rparr>
        | Inr secret \<Rightarrow>
            \<lparr>Username = (case Data secret ''userID'' of Some u \<Rightarrow> u | None \<Rightarrow> []),
             Secret = (case Data secret ''userKey'' of Some k \<Rightarrow> k | None \<Rightarrow> [])\<rparr>)"
  by (auto simp: ValidateAndLoadExternalClusterSecrets_def Let_def secretData_def
      lookupOrEmpty_def simp del: lookupSecrets.simps split: sum.splits prod.splits)

lemma round_waits:
  assumes "snd (snd (snd (fst (LoadClusterInfo K H c namespace)))) \<noteq> None \<or>
           (\<exists>ci. fst (fst (LoadClusterInfo K H c namespace)) = Some ci \<and>
                 \<not> IsExternalHealthCheckUserAdmin K (AdminSecret ci)) \<and>
           (\<exists>name \<in> set (externalSecretNames K). \<exists>e.
               SecretsGet (Clientset c) namespace name = Inl e \<and> \<not> IsNotFound e)"
  shows "fst (populateRound K H c namespace) = None"
proof (cases "snd (snd (snd (fst (LoadClusterInfo K H c namespace)))) = None")
  case False
  then show ?thesis
    by (auto simp: populateRound_def split: prod.splits option.splits)
next
  case True
  with assms obtain ci where ci: "fst (fst (LoadClusterInfo K H c namespace)) = Some ci"
      "\<not> IsExternalHealthCheckUserAdmin K (AdminSecret ci)"
    and fails: "\<exists>name \<in> set (externalSecretNames K). \<exists>e.
               SecretsGet (Clientset c) namespace name = Inl e \<and> \<not> IsNotFound e"
    by blast
  from fails have "snd (fst (ValidateAndLoadExternalClusterSecrets K c namespace)) \<noteq> None"
    using validate_no_error [of K c namespace] by blast
  with True ci show ?thesis
    by (auto simp: populateRound_def split: prod.splits option.splits)
qed

lemma round_returns:
  assumes "LoadClusterInfo K H c namespace = ((Some ci, n, mp, None), ev)"
    and "IsExternalHealthCheckUserAdmin K (AdminSecret ci) \<or>
         (\<forall>name \<in> set (externalSecretNames K). \<forall>e.
             SecretsGet (Clientset c) namespace name = Inl e \<longrightarrow> IsNotFound e)"
  shows "fst (populateRound K H c namespace) =
           Some (Returns (ci\<lparr>ExternalCred :=
              if IsExternalHealthCheckUserAdmin K (AdminSecret ci)
              then \<lparr>Username = AdminUsername K, Secret = AdminSecret ci\<rparr>
              else (case SecretsGet (Clientset c) namespace (OperatorCreds K) of
                      Inl e \<Rightarrow> \<lparr>Username = [], Secret = []\<rparr>
                    | Inr secret \<Rightarrow>
                        \<lparr>Username = (case Data secret ''userID'' of Some u \<Rightarrow> u | None \<Rightarrow> []),
                         Secret = (case Data secret ''userKey'' of Some k \<Rightarrow> k | None \<Rightarrow> [])\<rparr>)\<rparr>))"
proof (cases "IsExternalHealthCheckUserAdmin K (AdminSecret ci)")
  case True
  with assms(1) show ?thesis by (simp add: populateRound_def)
next
  case False
  with assms(2) have "snd (fst (ValidateAndLoadExternalClusterSecrets K c namespace)) = None"
    using validate_no_error [of K c namespace] by blast
  from this validate_credential [OF this] assms(1) False show ?thesis
    by (auto simp: populateRound_def split: prod.splits option.splits)
qed

text \<open>
  C4, as the claim states it, fails: the stored admin secret is the placeholder (no
  admin marker) and none of the four service secrets exists, yet the first round
  returns, without sleeping, with an empty credential.
\<close>

theorem returns_without_credentials:
  "\<not> IsExternalHealthCheckUserAdmin pkg0 ''admin-secret'' \<and>
   SecretsGet (Clientset (externalContext ''admin-secret'')) ''rook-ceph'' (CsiRBDNodeSecret pkg0) =
     Inl NotFound \<and>
   SecretsGet (Clientset (externalContext ''admin-secret'')) ''rook-ceph''
     (CsiRBDProvisionerSecret pkg0) = Inl NotFound \<and>
   SecretsGet (Clientset (externalContext ''admin-secret'')) ''rook-ceph''
     (CsiCephFSNodeSecret pkg0) = Inl NotFound \<and>
   SecretsGet (Clientset (externalContext ''admin-secret'')) ''rook-ceph''
     (CsiCephFSProvisionerSecret pkg0) = Inl NotFound \<and>
   fst (PopulateExternalClusterInfo pkg0 host0 [externalContext ''admin-secret''] ''rook-ceph'') =
     Returns (externalInfo ''admin-secret'' \<lparr>Username = [], Secret = []\<rparr>) \<and>
   sleeps (snd (PopulateExternalClusterInfo pkg0 host0 [externalContext ''admin-secret'']
                  ''rook-ceph'')) = []"
  by (simp add: populateRound_def LoadClusterInfo_def CreateOrLoadClusterInfo_def
      findOrCreate_def loadMonConfig_def fix_defs IsNotFound_def Let_def externalContext_def
      externalSecret_def externalInfo_def lookupOrEmpty_def IsExternalHealthCheckUserAdmin_def
      ValidateAndLoadExternalClusterSecrets_def secretData_def sleeps_append)

text \<open>
  C4, amended. \<open>PopulateExternalClusterInfo\<close> runs in rounds. A round waits, that is it
  sleeps 60 seconds and the next round follows, when \<open>LoadClusterInfo\<close> fails, or when the
  stored admin secret is the placeholder \<open>AdminSecretName\<close> and one of the five lookups
  fails with a status other than "not found". The first round in which \<open>LoadClusterInfo\<close>
  succeeds and either the admin secret is not the placeholder or none of the five lookups
  fails with such a status returns: with the admin user name and the admin secret as the
  credential in the first case, and otherwise with the \<open>userID\<close> and \<open>userKey\<close> stored in
  the secret of the operator credentials, both empty when that secret is missing. Missing
  secrets do not make it wait. While every round waits it has not returned. A
  \<open>LoadClusterInfo\<close> that succeeds always gives a cluster info.
\<close>

theorem populate_until_settled:
  assumes "\<forall>c \<in> set pre.
             snd (snd (snd (fst (LoadClusterInfo K H c namespace)))) \<noteq> None \<or>
             (\<exists>ci. fst (fst (LoadClusterInfo K H c namespace)) = Some ci \<and>
                   \<not> IsExternalHealthCheckUserAdmin K (AdminSecret ci)) \<and>
             (\<exists>name \<in> set (externalSecretNames K). \<exists>e.
                 SecretsGet (Clientset c) namespace name = Inl e \<and> \<not> IsNotFound e)"
    and "LoadClusterInfo K H context namespace = ((Some ci, n, mp, None), ev)"
    and "IsExternalHealthCheckUserAdmin K (AdminSecret ci) \<or>
         (\<forall>name \<in> set (externalSecretNames K). \<forall>e.
             SecretsGet (Clientset context) namespace name = Inl e \<longrightarrow> IsNotFound e)"
  shows "fst (PopulateExternalClusterInfo K H (pre @ context # later) namespace) =
           Returns (ci\<lparr>ExternalCred :=
              if IsExternalHealthCheckUserAdmin K (AdminSecret ci)
              then \<lparr>Username = AdminUsername K, Secret = AdminSecret ci\<rparr>
              else (case SecretsGet (Clientset context) namespace (OperatorCreds K) of
                      Inl e \<Rightarrow> \<lparr>Username = [], Secret = []\<rparr>
                    | Inr secret \<Rightarrow>
                        \<lparr>Username = (case Data secret ''userID'' of Some u \<Rightarrow> u | None \<Rightarrow> []),
                         Secret = (case Data secret ''userKey'' of Some k \<Rightarrow> k | None \<Rightarrow> [])\<rparr>)\<rparr>) \<and>
         sleeps (snd (PopulateExternalClusterInfo K H (pre @ context # later) namespace)) =
           replicate (length pre) (60 * 1000000000) \<and>
         fst (PopulateExternalClusterInfo K H pre namespace) = NotYet \<and>
         sleeps (snd (PopulateExternalClusterInfo K H pre namespace)) =
           replicate (length pre) (60 * 1000000000) \<and>
         (\<forall>c. snd (snd (snd (fst (LoadClusterInfo K H c namespace)))) = None \<longrightarrow>
              fst (fst (LoadClusterInfo K H c namespace)) \<noteq> None)"
proof -
  have waits: "\<forall>c \<in> set pre. fst (populateRound K H c namespace) = None"
    using assms(1) round_waits [of K H _ namespace] by blast
  note returns = round_returns [OF assms(2,3)]
  have loop: "fst (PopulateExternalClusterInfo K H (pre @ context # later) namespace) =
           Returns (ci\<lparr>ExternalCred :=
              if IsExternalHealthCheckUserAdmin K (AdminSecret ci)
              then \<lparr>Username = AdminUsername K, Secret = AdminSecret ci\<rparr>
              else (case SecretsGet (Clientset context) namespace (OperatorCreds K) of
                      Inl e \<Rightarrow> \<lparr>Username = [], Secret = []\<rparr>
                    | Inr secret \<Rightarrow>
                        \<lparr>Username = (case Data secret ''userID'' of Some u \<Rightarrow> u | None \<Rightarrow> []),
                         Secret = (case Data secret ''userKey'' of Some k \<Rightarrow> k | None \<Rightarrow> [])\<rparr>)\<rparr>)"
    "sleeps (snd (PopulateExternalClusterInfo K H (pre @ context # later) namespace)) =
       replicate (length pre) (60 * 1000000000)"
    using populate_waits [OF waits, of "context # later"] populate_settled [OF returns, of later]
    by (simp_all add: externalConnectionRetry_def Second_def)
  have notyet: "fst (PopulateExternalClusterInfo K H pre namespace) = NotYet"
    "sleeps (snd (PopulateExternalClusterInfo K H pre namespace)) =
           replicate (length pre) (60 * 1000000000)"
    using populate_waits [OF waits, of "[]"]
    by (simp_all add: externalConnectionRetry_def Second_def)
  from loop notyet load_Some [of K H _ namespace] show ?thesis by blast
qed

lemmas ext_defs = populateRound_def LoadClusterInfo_def CreateOrLoadClusterInfo_def
  findOrCreate_def loadMonConfig_def IsNotFound_def Let_def externalContext_def
  externalContextWith_def unreachable0_def withCreds0_def operatorCredsSecret_def
  externalSecret_def externalInfo_def lookupOrEmpty_def IsExternalHealthCheckUserAdmin_def
  externalSecretNames_def

theorem populate_until_settled_witness:
  "fst (PopulateExternalClusterInfo pkg0 host0
          [context0, externalContextWith ''admin-secret'' unreachable0,
           externalContextWith ''admin-secret'' withCreds0] ''rook-ceph'') =
     Returns (externalInfo ''admin-secret''
                \<lparr>Username = ''client.healthchecker'', Secret = ''AQBhealth==''\<rparr>) \<and>
   sleeps (snd (PopulateExternalClusterInfo pkg0 host0
          [context0, externalContextWith ''admin-secret'' unreachable0,
           externalContextWith ''admin-secret'' withCreds0] ''rook-ceph'')) =
     [60000000000, 60000000000] \<and>
   fst (PopulateExternalClusterInfo pkg0 host0
          [context0, externalContext ''AQBadminkey==''] ''rook-ceph'') =
     Returns (externalInfo ''AQBadminkey==''
                \<lparr>Username = ''client.admin'', Secret = ''AQBadminkey==''\<rparr>)"
proof -
  let ?c2 = "externalContextWith ''admin-secret'' unreachable0"
  let ?c3 = "externalContextWith ''admin-secret'' withCreds0"
  let ?c4 = "externalContext ''AQBadminkey==''"
  have w1: "snd (snd (snd (fst (LoadClusterInfo pkg0 host0 context0 ''rook-ceph'')))) \<noteq> None"
    by (simp add: ext_defs fix_defs)
  have w2: "fst (fst (LoadClusterInfo pkg0 host0 ?c2 ''rook-ceph'')) =
              Some (externalInfo ''admin-secret'' \<lparr>Username = [], Secret = []\<rparr>)"
    "\<not> IsExternalHealthCheckUserAdmin pkg0
         (AdminSecret (externalInfo ''admin-secret'' \<lparr>Username = [], Secret = []\<rparr>))"
    "SecretsGet (Clientset ?c2) ''rook-ceph'' ''rook-csi-rbd-node'' = Inl (OtherReason ''timeout'')"
    "\<not> IsNotFound (OtherReason ''timeout'')"
    "''rook-csi-rbd-node'' \<in> set (externalSecretNames pkg0)"
    by (simp_all add: ext_defs fix_defs)
  have pre: "\<forall>c \<in> set [context0, ?c2].
             snd (snd (snd (fst (LoadClusterInfo pkg0 host0 c ''rook-ceph'')))) \<noteq> None \<or>
             (\<exists>ci. fst (fst (LoadClusterInfo pkg0 host0 c ''rook-ceph'')) = Some ci \<and>
                   \<not> IsExternalHealthCheckUserAdmin pkg0 (AdminSecret ci)) \<and>
             (\<exists>name \<in> set (externalSecretNames pkg0). \<exists>e.
                 SecretsGet (Clientset c) ''rook-ceph'' name = Inl e \<and> \<not> IsNotFound e)"
    using w1 w2 by auto
  have l3: "LoadClusterInfo pkg0 host0 ?c3 ''rook-ceph'' =
              ((Some (externalInfo ''admin-secret'' \<lparr>Username = [], Secret = []\<rparr>), - 1,
                emptyMapping, None),
               snd (LoadClusterInfo pkg0 host0 ?c3 ''rook-ceph''))"
    by (simp add: prod_eq_iff) (simp add: ext_defs fix_defs)
  have s3: "IsExternalHealthCheckUserAdmin pkg0
               (AdminSecret (externalInfo ''admin-secret'' \<lparr>Username = [], Secret = []\<rparr>)) \<or>
         (\<forall>name \<in> set (externalSecretNames pkg0). \<forall>e.
             SecretsGet (Clientset ?c3) ''rook-ceph'' name = Inl e \<longrightarrow> IsNotFound e)"
    by (simp add: ext_defs fix_defs)
  have g3: "SecretsGet (Clientset ?c3) ''rook-ceph'' (OperatorCreds pkg0) = Inr operatorCredsSecret"
    by (simp add: ext_defs fix_defs)
  have pre1: "\<forall>c \<in> set [context0].
             snd (snd (snd (fst (LoadClusterInfo pkg0 host0 c ''rook-ceph'')))) \<noteq> None \<or>
             (\<exists>ci. fst (fst (LoadClusterInfo pkg0 host0 c ''rook-ceph'')) = Some ci \<and>
                   \<not> IsExternalHealthCheckUserAdmin pkg0 (AdminSecret ci)) \<and>
             (\<exists>name \<in> set (externalSecretNames pkg0). \<exists>e.
                 SecretsGet (Clientset c) ''rook-ceph'' name = Inl e \<and> \<not> IsNotFound e)"
    using w1 by simp
  have l4: "LoadClusterInfo pkg0 host0 ?c4 ''rook-ceph'' =
              ((Some (externalInfo ''AQBadminkey=='' \<lparr>Username = [], Secret = []\<rparr>), - 1,
                emptyMapping, None),
               snd (LoadClusterInfo pkg0 host0 ?c4 ''rook-ceph''))"
    by (simp add: prod_eq_iff) (simp add: ext_defs fix_defs)
  have s4: "IsExternalHealthCheckUserAdmin pkg0
               (AdminSecret (externalInfo ''AQBadminkey=='' \<lparr>Username = [], Secret = []\<rparr>)) \<or>
         (\<forall>name \<in> set (externalSecretNames pkg0). \<forall>e.
             SecretsGet (Clientset ?c4) ''rook-ceph'' name = Inl e \<longrightarrow> IsNotFound e)"
    by (simp add: ext_defs fix_defs)
  from populate_until_settled [OF pre l3 s3, of "[]"]
       populate_until_settled [OF pre1 l4 s4, of "[]"] g3 w2(2) s4
  show ?thesis
    by (simp add: externalInfo_def operatorCredsSecret_def pkg0_def
        IsExternalHealthCheckUserAdmin_def)
qed

subsection \<open>updateDrivers\<close>

text \<open>
  C8. The version check compares the major and minor numbers as strings, byte by byte.
  On Kubernetes 1.9, which is older than the minimum 1.13, \<open>9\<close> is not below \<open>13\<close> in
  that order: the check does not find the version too old, the switches of \<open>csi\<close> stay
  on and the drivers are started.
\<close>

theorem kubernetes_1_9_not_disabled:
  "versionTooOld drivers0 \<lparr>Major = ''1'', Minor = ''9'', GitVersion = ''v1.9.0''\<rparr> = False \<and>
   updateDrivers drivers0 operator0 \<lparr>EnableRBD = True, EnableCephFS = True\<rparr> =
     (None, \<lparr>EnableRBD = True, EnableCephFS = True\<rparr>,
      [AgentStarted,
       DriversStarted \<lparr>Major = ''1'', Minor = ''9'', GitVersion = ''v1.9.0''\<rparr>
         (Some (ownerRef0\<lparr>BlockOwnerDeletion := Some False\<rparr>))])"
  by (simp add: versionTooOld_def updateDrivers_def drivers0_def operator0_def Let_def)

subsection \<open>Merging an override document\<close>

lemma valueOf_mergeSection:
  "valueOf (mergeSection name keys document) section key =
     (if section = name
      then (case keys key of Some v \<Rightarrow> Some v | None \<Rightarrow> valueOf document section key)
      else valueOf document section key)"
  by (induction name keys document rule: mergeSection.induct)
     (auto simp: valueOf_def map_add_def split: option.splits)

lemma valueOf_Merge:
  "distinct (map fst override) \<Longrightarrow>
     valueOf (Merge document override) section key =
       (case valueOf override section key of
          Some v \<Rightarrow> Some v
        | None \<Rightarrow> valueOf document section key)"
proof (induction document override rule: Merge.induct)
  case (1 document)
  show ?case by (simp add: valueOf_def)
next
  case (2 document name keys rest)
  then have IH: "valueOf (Merge (mergeSection name keys document) rest) section key =
       (case valueOf rest section key of
          Some v \<Rightarrow> Some v
        | None \<Rightarrow> valueOf (mergeSection name keys document) section key)"
    and fresh: "name \<notin> fst ` set rest"
    by simp_all
  from fresh have none: "map_of rest name = None"
    by (simp add: map_of_eq_None_iff)
  show ?case
  proof (cases "section = name")
    case True
    have a: "valueOf rest section key = None"
      using none True by (simp add: valueOf_def)
    have b: "valueOf ((name, keys) # rest) section key = keys key"
      using True by (simp add: valueOf_def)
    have c: "valueOf (mergeSection name keys document) section key =
               (case keys key of Some v \<Rightarrow> Some v | None \<Rightarrow> valueOf document section key)"
      using True by (auto simp: valueOf_mergeSection split: option.splits)
    show ?thesis by (simp add: IH a b c split: option.splits)
  next
    case False
    have a: "valueOf ((name, keys) # rest) section key = valueOf rest section key"
      using False by (simp add: valueOf_def)
    have c: "valueOf (mergeSection name keys document) section key = valueOf document section key"
      using False by (simp add: valueOf_mergeSection)
    show ?thesis by (simp add: IH a c split: option.splits)
  qed
qed

lemma parsed_override0:
  "parseDocument override0 = [(''global'', [''bluestore_min_alloc_size_hdd'' \<mapsto> ''4096''])]"
  by (simp add: parseDocument_def override0_def trim_def isBlank_def)

text \<open>
  C3. Merging works by section and key: for an override whose sections have distinct
  names, a key of the merged document has the override's value when the override has
  that key in that section, and the default's value otherwise. In the concrete case (the
  default document has \<open>global.fsid = myfsid\<close>, the override text is \<open>[global]\<close> and
  \<open>bluestore_min_alloc_size_hdd = 4096\<close> on the next line) the rendered document has
  both values, and \<open>Render\<close> returns the path \<open>destinationDir/clusterName.config\<close>.
\<close>

theorem merge_keeps_defaults:
  "(distinct (map fst override) \<longrightarrow>
      (\<forall>section key. valueOf (Merge document override) section key =
         (case valueOf override section key of
            Some v \<Rightarrow> Some v
          | None \<Rightarrow> valueOf document section key))) \<and>
   valueOf (snd (Render ''foo-cluster'' defaultDocument0 (Some override0) destinationDir))
     ''global'' ''fsid'' = Some ''myfsid'' \<and>
   valueOf (snd (Render ''foo-cluster'' defaultDocument0 (Some override0) destinationDir))
     ''global'' ''bluestore_min_alloc_size_hdd'' = Some ''4096'' \<and>
   fst (Render clusterName document overrideDocument destinationDir) =
     destinationDir @ ''/'' @ clusterName @ ''.config''"
  by (simp add: valueOf_Merge Render_def parsed_override0)
     (simp add: valueOf_def defaultDocument0_def)

theorem merge_keeps_defaults_witness:
  "distinct (map fst (parseDocument override0)) \<and>
   valueOf (Merge defaultDocument0 (parseDocument override0)) ''global'' ''mon initial members'' =
     Some ''mon0'' \<and>
   valueOf (Merge defaultDocument0 (parseDocument override0)) ''osd'' ''fsid'' = None \<and>
   fst (Render ''foo-cluster'' defaultDocument0 (Some override0) ''/tmp/TestGenerateConfigFile'') =
     ''/tmp/TestGenerateConfigFile/foo-cluster.config''"
proof -
  have d: "distinct (map fst (parseDocument override0))"
    by (simp add: parsed_override0)
  from merge_keeps_defaults [where override = "parseDocument override0"
      and document = defaultDocument0 and destinationDir = "''/tmp/TestGenerateConfigFile''"
      and clusterName = "''foo-cluster''" and overrideDocument = "Some override0"] d
  show ?thesis
    by (simp add: parsed_override0 valueOf_def defaultDocument0_def)
qed

end
